theory Spec2Isabelle
  imports Complex_Main
begin

section \<open>Python values used by perf\_tuning.py\<close>

text \<open>
  Exceptions are values. Only the four classes that the modelled lines can raise are
  listed: \<open>ValueError\<close> (the builtin \<open>float\<close> on a token that is no number, the
  unsupported-provider check), \<open>IndexError\<close> (\<open>latencies[0]\<close> on an empty list),
  \<open>TypeError\<close> (ordering \<open>None\<close> against a number inside \<open>sorted\<close>) and
  \<open>AttributeError\<close> (reading \<open>args.duration_time\<close> from an argument object that has
  no such attribute).
\<close>

datatype py_error = ValueError | IndexError | TypeError | AttributeError

text \<open>
  A Python float is held as the rational number it denotes: every finite float is one,
  and the comparisons the program makes on floats are exact. The arithmetic on floats is
  not exact, and is not reproduced here: \<open>sum\<close>, \<open>/\<close>, \<open>*\<close> and \<open>round\<close> are
  parameters of the model (section on the world outside the program). Infinities and NaN
  are left out; the initial \<open>float("inf")\<close> of the tuner is overwritten before it is read.
  A latency average is a float or \<open>None\<close>; its truth value is what \<open>if x.avg\<close> and
  \<open>if not param.avg\<close> test.
\<close>

definition truthy :: "rat option \<Rightarrow> bool" where
  "truthy v = (case v of None \<Rightarrow> False | Some x \<Rightarrow> x \<noteq> 0)"

text \<open>\<open>str(i)\<close> for an integer.\<close>

fun str_nat :: "nat \<Rightarrow> string" where
  "str_nat n =
     (if n < 10 then [''0123456789'' ! n]
      else str_nat (n div 10) @ [''0123456789'' ! (n mod 10)])"

declare str_nat.simps [simp del]

definition str_int :: "int \<Rightarrow> string" where
  "str_int i = (if i < 0 then CHR ''-'' # str_nat (nat (- i)) else str_nat (nat i))"

text \<open>\<open>" ".join(xs)\<close>.\<close>

fun join_sp :: "string list \<Rightarrow> string" where
  "join_sp [] = []"
| "join_sp [x] = x"
| "join_sp (x # y # ys) = x @ '' '' @ join_sp (y # ys)"

text \<open>\<open>s.split(",")\<close>: never empty, one more piece than there are commas.\<close>

fun split_comma :: "string \<Rightarrow> string list" where
  "split_comma [] = [[]]"
| "split_comma (c # cs) =
     (if c = CHR '','' then [] # split_comma cs
      else (case split_comma cs of [] \<Rightarrow> [[c]] | t # ts \<Rightarrow> (c # t) # ts))"

text \<open>
  \<open>s.strip()\<close>: the characters below 256 that \<open>str.isspace\<close> accepts are
  9 to 13, 28 to 32, 133 and 160.
\<close>

definition is_space :: "char \<Rightarrow> bool" where
  "is_space c = ((of_char c :: nat) \<in> set [9, 10, 11, 12, 13, 28, 29, 30, 31, 32, 133, 160])"

definition strip :: "string \<Rightarrow> string" where
  "strip s = rev (dropWhile is_space (rev (dropWhile is_space s)))"

text \<open>\<open>sub in s\<close> on strings.\<close>

fun str_in :: "string \<Rightarrow> string \<Rightarrow> bool" where
  "str_in sub [] = (sub = [])"
| "str_in sub (c # cs) = (take (length sub) (c # cs) = sub \<or> str_in sub cs)"

text \<open>
  A \<open>dict\<close> from strings to strings keeps insertion order, which the program relies on
  when it names trials after the environment variables; it is an association list with
  distinct keys. \<open>dict_set\<close> is \<open>d[k] = v\<close>, \<open>dict_update\<close> is \<open>d.update(e)\<close>,
  \<open>dict_pop\<close> is \<open>d.pop(k, None)\<close>.
\<close>

type_synonym dict = "(string \<times> string) list"

fun dict_set :: "dict \<Rightarrow> string \<Rightarrow> string \<Rightarrow> dict" where
  "dict_set [] k v = [(k, v)]"
| "dict_set ((k', v') # d) k v =
     (if k' = k then (k, v) # d else (k', v') # dict_set d k v)"

fun dict_update :: "dict \<Rightarrow> dict \<Rightarrow> dict" where
  "dict_update d [] = d"
| "dict_update d ((k, v) # e) = dict_update (dict_set d k v) e"

definition dict_pop :: "dict \<Rightarrow> string \<Rightarrow> dict" where
  "dict_pop d k = filter (\<lambda>kv. fst kv \<noteq> k) d"

text \<open>\<open>xs[:n]\<close>: a negative \<open>n\<close> counts from the end.\<close>

definition py_take :: "int \<Rightarrow> 'a list \<Rightarrow> 'a list" where
  "py_take n xs = (if 0 \<le> n then take (nat n) xs else take (length xs - nat (- n)) xs)"

section \<open>The world outside the program\<close>

text \<open>
  The benchmark executable, the file system, the resource monitor and the builtins the
  program calls are parameters of the model. \<open>subprocess_run k argv env\<close> is the outcome
  of the \<open>k\<close>-th call of \<open>subprocess.run\<close> (counted from 0 over the whole program run)
  on that command line and environment, so an outcome may depend on everything that
  happened before. An outcome is the return code and what the result file holds after the
  run: \<open>None\<close> when \<open>os.path.exists(result_file)\<close> is false, else its lines.
  Starting a process is taken to succeed: \<open>subprocess.run\<close> returns.
  \<open>profile_export k\<close> stands for lines 186 to 193, which only write files: it says
  whether they raise. \<open>monitor k x\<close> gives the gpu, cpu and memory samples that the
  \<open>Monitor\<close> started before the \<open>k\<close>-th process holds after \<open>stop()\<close>.

  The float arithmetic of the interpreter is a parameter too: \<open>float_sum xs\<close> is
  \<open>sum(xs)\<close>, \<open>float_div x y\<close> is \<open>x / y\<close>, \<open>float_mul x y\<close> is \<open>x * y\<close> and
  \<open>float_round x d\<close> is \<open>round(x, d)\<close>, each on floats. Nothing is assumed of them.
\<close>

record proc =
  returncode :: int
  result_lines :: "string list option"

record machine =
  subprocess_run :: "nat \<Rightarrow> string list \<Rightarrow> dict \<Rightarrow> proc"
  uuid4 :: "nat \<Rightarrow> string"
  float_of :: "string \<Rightarrow> rat option"
  float_sum :: "rat list \<Rightarrow> rat"
  float_div :: "rat \<Rightarrow> rat \<Rightarrow> rat"
  float_mul :: "rat \<Rightarrow> rat \<Rightarrow> rat"
  float_round :: "rat \<Rightarrow> nat \<Rightarrow> rat"
  path_join :: "string \<Rightarrow> string \<Rightarrow> string"
  os_environ :: dict
  is_windows :: bool
  monitor :: "nat \<Rightarrow> rat \<Rightarrow> rat list \<times> rat list \<times> rat list"
  profile_export :: "nat \<Rightarrow> py_error option"
  isdir :: "string \<Rightarrow> bool"
  num_gpus :: nat
  ep_envvar_map :: "string \<Rightarrow> (string \<times> string list) list option"

text \<open>
  The counters of the calls made so far; a program state extends this record.
\<close>

record world =
  procs :: nat
  uuids :: nat

section \<open>Trial specification: class PerfTestParams\<close>

text \<open>
  \<open>Args\<close> is the argument object, either the namespace of the parsed command line or a
  \<open>ConverterParamsFromJson\<close>. The thread ceilings and \<open>top_n\<close> are held as the
  integers that \<open>int(args. ...)\<close> yields, \<open>parallel\<close> as its truth value. Only the
  object read from a JSON file has the attribute \<open>duration_time\<close>: the command-line
  option is named \<open>seconds_to_run\<close>, so on the parsed command line the attribute is
  missing, which is \<open>None\<close> here.
\<close>

record Args =
  model :: string
  result :: string
  test_mode :: string
  repeated_times :: string
  duration_time :: "string option"
  intra_op_num_threads :: int
  inter_op_num_threads :: int
  top_n :: int
  parallel :: bool
  optimization_level :: string
  execution_provider :: string

text \<open>
  The attribute \<open>latencies\<close> exists only once the trial has run; it is never read
  before, and starts as the empty list here.
\<close>

record PerfTestParams =
  name :: string
  desc :: string
  path :: string
  env :: dict
  test_args :: "string list"
  env_to_set :: dict
  build_name :: string
  command :: "string option"
  avg :: "rat option"
  latencies :: "rat list"
  gpu :: rat
  cpu :: rat
  memory :: rat

text \<open>
  \<open>__init__\<close>; \<open>bp\<close> is the global \<open>build_path\<close> that the constructor reads.
\<close>

definition PerfTestParams_init ::
  "machine \<Rightarrow> string \<Rightarrow> string \<Rightarrow> string \<Rightarrow> string \<Rightarrow> string list \<Rightarrow> dict \<Rightarrow> string
     \<Rightarrow> PerfTestParams" where
  "PerfTestParams_init m bp nm ds pth targs e bn =
     (let exe = (if is_windows m then path_join m bp ''onnxruntime_perf_test.exe''
                 else path_join m bp ''onnxruntime_perf_test'');
          env0 = (if is_windows m then os_environ m
                  else dict_set (os_environ m) ''LD_LIBRARY_PATH'' bp);
          env1 = dict_pop (dict_pop env0 ''OMP_WAIT_POLICY'') ''OMP_NUM_THREADS''
      in \<lparr>name = nm, desc = ds, path = pth, env = dict_update env1 e,
          test_args = exe # targs, env_to_set = e, build_name = bn, command = None,
          avg = None, latencies = [], gpu = 0, cpu = 0, memory = 0\<rparr>)"

definition updateEnv :: "PerfTestParams \<Rightarrow> dict \<Rightarrow> PerfTestParams" where
  "updateEnv p e = p\<lparr>env := dict_update (env p) e, env_to_set := dict_update (env_to_set p) e\<rparr>"

text \<open>
  Lines 60 to 70. Outside the mode \<open>times\<close> line 68 reads \<open>args.duration_time\<close>, which
  raises when the attribute is missing.
\<close>

definition get_common_args :: "Args \<Rightarrow> py_error + string list" where
  "get_common_args a =
     (let c0 = [''-o'', optimization_level a];
          c1 = (if test_mode a \<noteq> [] then c0 @ [''-m'', test_mode a] else c0)
      in if test_mode a = ''times''
         then Inr (if repeated_times a \<noteq> [] then c1 @ [''-r'', repeated_times a] else c1)
         else (case duration_time a of
                 None \<Rightarrow> Inl AttributeError
               | Some t \<Rightarrow> Inr (if t \<noteq> [] then c1 @ [''-t'', t] else c1)))"

definition get_args :: "Args \<Rightarrow> PerfTestParams \<Rightarrow> string \<Rightarrow> py_error + string list" where
  "get_args a p result_file =
     (case get_common_args a of
        Inl e \<Rightarrow> Inl e
      | Inr common \<Rightarrow> Inr (test_args p @ common @ [model a, result_file]))"

definition get_percentiles_args :: "Args \<Rightarrow> PerfTestParams \<Rightarrow> string \<Rightarrow> string list" where
  "get_percentiles_args a p result_file =
     test_args p @ [''-o'', optimization_level a, ''-m'', ''times'', ''-r'', ''200'',
                    model a, result_file]"

definition get_profile_args ::
  "Args \<Rightarrow> PerfTestParams \<Rightarrow> string \<Rightarrow> string \<Rightarrow> py_error + string list" where
  "get_profile_args a p profile_file result_file =
     (case get_common_args a of
        Inl e \<Rightarrow> Inl e
      | Inr common \<Rightarrow> Inr (test_args p @ common @ [''-p'', profile_file, model a, result_file]))"

section \<open>Trial runner: run\_perf\_tuning\<close>

text \<open>
  Lines 165 to 169: every stripped line that splits into five pieces at commas gives one
  sample, the float of its second piece; \<open>float\<close> raises on a piece that is no number.
\<close>

fun parse_lines :: "(string \<Rightarrow> rat option) \<Rightarrow> string list \<Rightarrow> py_error + rat list" where
  "parse_lines fl [] = Inr []"
| "parse_lines fl (l # ls) =
     (let tokens = split_comma (strip l)
      in if length tokens = 5
         then (case fl (tokens ! 1) of
                 None \<Rightarrow> Inl ValueError
               | Some x \<Rightarrow> (case parse_lines fl ls of
                             Inl e \<Rightarrow> Inl e
                           | Inr xs \<Rightarrow> Inr (x # xs)))
         else parse_lines fl ls)"

text \<open>\<open>round(sum(xs) / len(xs), 5) if len(xs) > 0 else 0\<close>, lines 181 to 183.\<close>

definition mean5 :: "machine \<Rightarrow> rat list \<Rightarrow> rat" where
  "mean5 m xs =
     (if xs \<noteq> [] then float_round m (float_div m (float_sum m xs) (of_nat (length xs))) 5
      else 0)"

text \<open>
  Lines 195 to 204: sort the samples, store them, and set the average from the sorted
  list, \<open>round(sum(latencies) / len(latencies), 9) * 1000\<close>.
\<close>

definition store_latencies :: "machine \<Rightarrow> PerfTestParams \<Rightarrow> rat list \<Rightarrow> PerfTestParams" where
  "store_latencies m p lat =
     p\<lparr>latencies := sort lat,
       avg := (if lat \<noteq> []
               then Some (float_mul m
                            (float_round m
                               (float_div m (float_sum m (sort lat)) (of_nat (length lat))) 9)
                            1000)
               else None)\<rparr>"

text \<open>
  Lines 171 to 193, entered when \<open>percentiles\<close> is set and the measured run has left a
  result file: a third process runs under the monitor.
\<close>

definition profile_run ::
  "machine \<Rightarrow> Args \<Rightarrow> PerfTestParams \<Rightarrow> string \<Rightarrow> rat list \<Rightarrow> 'a world_scheme
     \<Rightarrow> py_error + (PerfTestParams \<times> 'a world_scheme)" where
  "profile_run m a p result_file lat w =
     (let profile_name = path_join m (result a) (uuid4 m (uuids w))
      in case lat of
           [] \<Rightarrow> Inl IndexError
         | l0 # _ \<Rightarrow>
             (case get_profile_args a p profile_name result_file of
                Inl e \<Rightarrow> Inl e
              | Inr pargs \<Rightarrow>
                  (let k = procs w;
                       pr = subprocess_run m k pargs (env p);
                       rgpu = filter (\<lambda>x. \<not> x = 0) (fst (monitor m k l0));
                       rcpu = filter (\<lambda>x. \<not> x = 0) (fst (snd (monitor m k l0)));
                       rmem = snd (snd (monitor m k l0));
                       p1 = p\<lparr>gpu := mean5 m rgpu, cpu := mean5 m rcpu, memory := mean5 m rmem\<rparr>;
                       w1 = w\<lparr>procs := procs w + 1, uuids := uuids w + 1\<rparr>
                   in if returncode pr = 0
                      then (case profile_export m k of
                              Some e \<Rightarrow> Inl e
                            | None \<Rightarrow> Inr (p1, w1))
                      else Inr (p1, w1))))"

text \<open>
  The whole runner. The first process is the warm-up, whose outcome is dropped; the second
  is measured. The result is the trial with its result fields set, or the exception.
\<close>

definition run_perf_tuning ::
  "machine \<Rightarrow> Args \<Rightarrow> PerfTestParams \<Rightarrow> bool \<Rightarrow> 'a world_scheme
     \<Rightarrow> py_error + (PerfTestParams \<times> 'a world_scheme)" where
  "run_perf_tuning m a test_params percentiles w =
     (let result_file = path_join m (result a) (uuid4 m (uuids w))
      in case (if percentiles then Inr (get_percentiles_args a test_params result_file)
               else get_args a test_params result_file) of
           Inl e \<Rightarrow> Inl e
         | Inr targs \<Rightarrow>
             (let p1 = (if command test_params = None \<or> command test_params = Some []
                        then test_params\<lparr>command := Some (join_sp targs)\<rparr> else test_params);
                  perf_tuning = subprocess_run m (procs w + 1) targs (env test_params);
                  w1 = w\<lparr>procs := procs w + 2, uuids := uuids w + 1\<rparr>
              in if returncode perf_tuning = 0 \<and> result_lines perf_tuning \<noteq> None
                 then (case parse_lines (float_of m) (the (result_lines perf_tuning)) of
                         Inl e \<Rightarrow> Inl e
                       | Inr lat \<Rightarrow>
                           if percentiles
                           then (case profile_run m a p1 result_file lat w1 of
                                   Inl e \<Rightarrow> Inl e
                                 | Inr (p2, w2) \<Rightarrow> Inr (store_latencies m p2 lat, w2))
                           else Inr (store_latencies m p1 lat, w1))
                 else Inr (store_latencies m p1 [], w1)))"

section \<open>Program state\<close>

text \<open>
  Trial objects are shared: the lists \<open>failed\<close> and \<open>successful\<close>, the candidate list
  and the per-provider result lists hold references to the same objects, and the
  re-profiling pass mutates one of them in place. So objects live in a store, a list
  indexed by reference, and the lists hold references. An object enters the store when the
  program first puts it into a list.
\<close>

record pstate = world +
  heap :: "PerfTestParams list"
  failed_tests :: "nat list"
  successful_tests :: "nat list"

definition append_failed :: "PerfTestParams \<Rightarrow> pstate \<Rightarrow> pstate" where
  "append_failed p s = s\<lparr>heap := heap s @ [p], failed_tests := failed_tests s @ [length (heap s)]\<rparr>"

definition append_successful :: "PerfTestParams \<Rightarrow> pstate \<Rightarrow> pstate" where
  "append_successful p s =
     s\<lparr>heap := heap s @ [p], successful_tests := successful_tests s @ [length (heap s)]\<rparr>"

section \<open>Thread-count tuner: run\_perf\_tuning\_binary\<close>

text \<open>
  The arguments of one call, with the two globals \<open>build_path\<close> and \<open>build_name\<close>
  that the function reads.
\<close>

record tuner_call =
  g_build_path :: string
  g_build_name :: string
  template :: PerfTestParams
  num_cores :: int
  name_suffix :: string
  desc_suffix :: string
  is_omp :: bool
  tune_inter_ops :: bool

text \<open>
  Lines 218 to 234 and again 254 to 271: the trial for \<open>n\<close> threads. The thread count
  goes to \<open>-y\<close> (inter-op), to \<open>-x\<close> (intra-op), or to \<open>OMP_NUM_THREADS\<close> with \<open>-x 1\<close>.
\<close>

definition thread_param :: "machine \<Rightarrow> tuner_call \<Rightarrow> int \<Rightarrow> PerfTestParams" where
  "thread_param m c n =
     (let param = PerfTestParams_init m (g_build_path c)
                    (name (template c) @ str_int n @ name_suffix c)
                    (desc (template c) @ str_int n @ desc_suffix c)
                    (path (template c)) [] (env_to_set (template c)) (g_build_name c)
      in if tune_inter_ops c
         then param\<lparr>test_args := test_args (template c) @ [''-y'', str_int n]\<rparr>
         else if \<not> is_omp c
         then param\<lparr>test_args := test_args (template c) @ [''-x'', str_int n]\<rparr>
         else (updateEnv param [(''OMP_NUM_THREADS'', str_int n)])
                \<lparr>test_args := test_args (template c) @ [''-x'', ''1'']\<rparr>)"

text \<open>The local variables of the search loop.\<close>

record search =
  lower :: int
  upper :: int
  best_latency :: rat
  best_run :: int
  rerun :: bool

text \<open>Lines 284 to 288, the check that ends an iteration whose probe succeeded.\<close>

definition restart :: "tuner_call \<Rightarrow> search \<Rightarrow> search" where
  "restart c s =
     (if upper s < lower s \<and> best_run s = (1 + num_cores c) div 2 \<and> \<not> rerun s
      then s\<lparr>upper := (1 + num_cores c) div 2 - 1, lower := 2, rerun := True\<rparr>
      else s)"

text \<open>
  Lines 249 to 288, one pass through the loop body. \<open>Break\<close> leaves the loop,
  \<open>Next\<close> goes back to the loop test.
\<close>

datatype 'a flow = Break 'a | Next 'a

definition iteration ::
  "machine \<Rightarrow> Args \<Rightarrow> tuner_call \<Rightarrow> search \<Rightarrow> pstate \<Rightarrow> py_error + (search \<times> pstate) flow" where
  "iteration m a c s ps =
     (let mid = lower s + (upper s - lower s) div 2
      in if mid = 2 then Inr (Break (s, ps))
         else (case run_perf_tuning m a (thread_param m c mid) False ps of
                 Inl e \<Rightarrow> Inl e
               | Inr (param, ps1) \<Rightarrow>
                   if truthy (avg param)
                   then Inr (Next
                     (restart c
                        (if best_latency s < the (avg param)
                         then s\<lparr>upper := mid - 1\<rparr>
                         else s\<lparr>lower := mid + 1, best_latency := the (avg param),
                                best_run := mid\<rparr>),
                      append_successful param ps1))
                   else Inr (Break (s, append_failed param ps1))))"

text \<open>
  The loop ends: an iteration that goes on either shrinks the window or is the one
  restart, after which the window only shrinks.
\<close>

definition search_size :: "tuner_call \<Rightarrow> search \<Rightarrow> nat" where
  "search_size c s =
     (if rerun s then 0 else nat ((1 + num_cores c) div 2 - 2) + 1)
       + nat (upper s - lower s + 1)"

function search_loop ::
  "machine \<Rightarrow> Args \<Rightarrow> tuner_call \<Rightarrow> search \<Rightarrow> pstate \<Rightarrow> py_error + (search \<times> pstate)" where
  "search_loop m a c s ps =
     (if lower s \<le> upper s
      then (case iteration m a c s ps of
              Inl e \<Rightarrow> Inl e
            | Inr (Break r) \<Rightarrow> Inr r
            | Inr (Next (s', ps')) \<Rightarrow> search_loop m a c s' ps')
      else Inr (s, ps))"
  by pat_completeness auto
termination
proof (relation "measure (\<lambda>(m, a, c, s, ps). search_size c s)")
  show "wf (measure (\<lambda>(m, a, c, s, ps). search_size c s))"
    by simp
next
  fix m :: machine and a :: Args and c :: tuner_call and s s' :: search and ps ps' :: pstate
    and f :: "(search \<times> pstate) flow" and r :: "search \<times> pstate"
  assume window: "lower s \<le> upper s"
    and step: "iteration m a c s ps = Inr f" "f = Next r" "(s', ps') = r"
  define mid where "mid = lower s + (upper s - lower s) div 2"
  have bounds: "lower s \<le> mid" "mid \<le> upper s"
    using window by (auto simp: mid_def)
  obtain t where t: "s' = restart c t"
    and t_cases: "t = s\<lparr>upper := mid - 1\<rparr>
                  \<or> (\<exists>l b. t = s\<lparr>lower := mid + 1, best_latency := l, best_run := b\<rparr>)"
    using step unfolding iteration_def mid_def [symmetric] Let_def
    by (auto split: if_splits sum.splits prod.splits)
  from t_cases have shrink: "rerun t = rerun s"
    "nat (upper t - lower t + 1) < nat (upper s - lower s + 1)"
    using bounds by auto
  have "search_size c s' < search_size c s"
    using shrink window unfolding t search_size_def restart_def by auto
  then show "((m, a, c, s', ps'), (m, a, c, s, ps)) \<in> measure (\<lambda>(m, a, c, s, ps). search_size c s)"
    by simp
qed

declare search_loop.simps [simp del]

text \<open>The whole function: range, baseline probe at 2, then the loop from 3.\<close>

definition run_perf_tuning_binary ::
  "machine \<Rightarrow> Args \<Rightarrow> tuner_call \<Rightarrow> pstate \<Rightarrow> py_error + (int \<times> pstate)" where
  "run_perf_tuning_binary m a c ps =
     (let lower0 = 2;
          upper0 = (if is_omp c then num_cores c else num_cores c - 1)
      in if upper0 < lower0 then Inr (- 1, ps)
         else (case run_perf_tuning m a (thread_param m c lower0) False ps of
                 Inl e \<Rightarrow> Inl e
               | Inr (param, ps1) \<Rightarrow>
                   if \<not> truthy (avg param) then Inr (- 1, append_failed param ps1)
                   else (case search_loop m a c
                                \<lparr>lower = lower0 + 1, upper = upper0,
                                 best_latency = the (avg param), best_run = lower0,
                                 rerun = False\<rparr>
                                (append_successful param ps1) of
                           Inl e \<Rightarrow> Inl e
                         | Inr (s, ps2) \<Rightarrow> Inr (best_run s, ps2))))"

section \<open>Environment combinations: get\_env\_var\_combos, gen\_env\_var\_dict\<close>

text \<open>
  One pass of the loop of lines 297 to 311 for the candidate values \<open>options\<close> of one
  variable: the first pass (and any pass that finds \<open>all_combos\<close> empty) makes the
  one-element combinations; a later pass pairs every combination with every value and
  flattens the pair.
\<close>

definition combos_step :: "string list list \<Rightarrow> string list \<Rightarrow> string list list" where
  "combos_step all_combos options =
     (if length all_combos = 0 then map (\<lambda>v. [v]) options
      else concat (map (\<lambda>combo. map (\<lambda>v. combo @ [v]) options) all_combos))"

text \<open>
  \<open>env_vars\<close> is \<open>None\<close> or a dict from variable names to lists of values, in insertion
  order.
\<close>

definition get_env_var_combos ::
  "(string \<times> string list) list option \<Rightarrow> string list list" where
  "get_env_var_combos env_vars =
     (case env_vars of
        None \<Rightarrow> [['''']]
      | Some d \<Rightarrow> foldl combos_step [] (map snd d))"

text \<open>
  Lines 320 to 322; \<open>env_option[i]\<close> raises when the combination is shorter than the
  list of names.
\<close>

fun env_var_loop :: "string list \<Rightarrow> string list \<Rightarrow> dict \<Rightarrow> py_error + dict" where
  "env_var_loop [] vs d = Inr d"
| "env_var_loop (n # ns) [] d = Inl IndexError"
| "env_var_loop (n # ns) (v # vs) d =
     env_var_loop ns vs (if 0 < length v then dict_set d n v else d)"

definition gen_env_var_dict :: "string list \<Rightarrow> string list \<Rightarrow> py_error + dict" where
  "gen_env_var_dict env_names env_option =
     (if length env_names = 0 \<or> length env_option = 0 then Inr []
      else env_var_loop env_names env_option [])"

section \<open>Orchestrator: the main block\<close>

definition allProviders :: "string list" where
  "allProviders = [''cpu_openmp'', ''mklml'', ''dnnl'', ''cpu'', ''tensorrt'', ''ngraph'',
                   ''cuda'', ''nuphar'']"

definition parallel_eps :: "string list" where
  "parallel_eps = [''cpu_openmp'', ''mklml'', ''dnnl'', ''cpu'', ''ngraph'']"

definition omp_eps :: "string list" where
  "omp_eps = [''cpu_openmp'', ''mklml'', ''dnnl'', ''ngraph'', ''nuphar'']"

text \<open>
  The variables of the main block that outlive one provider. \<open>failed\<close> is the field
  \<open>failed_tests\<close> of the program state, \<open>successful\<close> (reset for every provider) the
  field \<open>successful_tests\<close>.
\<close>

record mstate =
  prog :: pstate
  successful_by_ep :: "(string \<times> nat list) list"
  profile_candidates :: "nat list"

fun ep_set ::
  "(string \<times> nat list) list \<Rightarrow> string \<Rightarrow> nat list \<Rightarrow> (string \<times> nat list) list" where
  "ep_set [] k v = [(k, v)]"
| "ep_set ((k', v') # d) k v = (if k' = k then (k, v) # d else (k', v') # ep_set d k v)"

text \<open>Lines 440 to 447.\<close>

definition build_path_of :: "machine \<Rightarrow> string \<Rightarrow> string \<Rightarrow> py_error + string" where
  "build_path_of m bin_dir bn =
     (if str_in ''mklml'' bn \<or> str_in ''nuphar'' bn then Inr (path_join m bin_dir ''mklml'')
      else if bn \<in> set allProviders then Inr (path_join m bin_dir ''all_eps'')
      else Inl ValueError)"

text \<open>Lines 450 to 452.\<close>

definition provider_args :: "string \<Rightarrow> string list" where
  "provider_args bn =
     (if \<not> str_in ''mklml'' bn \<and> \<not> str_in ''cpu_openmp'' bn then [''-e'', bn] else [])"

text \<open>Lines 456 to 469: inter-op tuning in parallel mode.\<close>

definition tune_inter ::
  "machine \<Rightarrow> Args \<Rightarrow> string \<Rightarrow> string \<Rightarrow> pstate \<Rightarrow> py_error + (int \<times> pstate)" where
  "tune_inter m a bp bn ps =
     (if parallel a \<and> bn \<in> set parallel_eps
      then run_perf_tuning_binary m a
             \<lparr>g_build_path = bp, g_build_name = bn,
              template = PerfTestParams_init m bp (bn @ ''_parallel_'') (bn @ '' '') bp
                           (provider_args bn @ [''-P'']) [] bn,
              num_cores = inter_op_num_threads a,
              name_suffix = ''_inter_threads'', desc_suffix = '' threads, '',
              is_omp = False, tune_inter_ops = True\<rparr> ps
      else Inr (- 1, ps))"

text \<open>Lines 478 to 480.\<close>

definition env_option_of :: "dict \<Rightarrow> string" where
  "env_option_of e = concat (map (\<lambda>kv. ''_'' @ fst kv @ ''_'' @ snd kv) e)"

text \<open>
  Lines 498 to 527: the candidates of one environment combination, in the order they are
  appended to \<open>tests\<close>. The combined candidate (lines 503 to 516) is built only under
  both tests; the default candidate (lines 519 to 527) always.
\<close>

definition combined_candidate ::
  "machine \<Rightarrow> string \<Rightarrow> string \<Rightarrow> dict \<Rightarrow> int \<Rightarrow> int \<Rightarrow> PerfTestParams" where
  "combined_candidate m bp bn e best_inter_op_num_threads best_thread_pool_size =
     (let omp = (bn \<in> set omp_eps);
          env_option = env_option_of e;
          nsuf = (if \<not> omp then ''_intra_threads'' else ''_OMP_threads'')
                   @ ''_'' @ str_int best_inter_op_num_threads @ ''_inter_threads'';
          dsuf = (if \<not> omp then '' intra_op_num_threads, '' else '' OMP_NUM_THREADS, '')
                   @ str_int best_inter_op_num_threads @ '' inter_op_num_threads, '';
          params = PerfTestParams_init m bp
                     (bn @ ''_parallel_'' @ str_int best_thread_pool_size @ nsuf @ env_option)
                     (bn @ '' '' @ str_int best_thread_pool_size @ dsuf @ env_option)
                     bp (provider_args bn @ [''-P'', ''-y'', str_int best_inter_op_num_threads])
                     e bn
      in if omp
         then (let q = updateEnv params [(''OMP_NUM_THREADS'', str_int best_thread_pool_size)]
               in q\<lparr>test_args := test_args q @ [''-x'', ''1'']\<rparr>)
         else params\<lparr>test_args := test_args params @ [''-x'', str_int best_thread_pool_size]\<rparr>)"

definition default_candidate :: "machine \<Rightarrow> string \<Rightarrow> string \<Rightarrow> dict \<Rightarrow> PerfTestParams" where
  "default_candidate m bp bn e =
     PerfTestParams_init m bp (bn @ env_option_of e) (bn @ '' '' @ env_option_of e) bp
       (provider_args bn) e bn"

definition combo_candidates ::
  "machine \<Rightarrow> string \<Rightarrow> string \<Rightarrow> dict \<Rightarrow> int \<Rightarrow> int \<Rightarrow> PerfTestParams list" where
  "combo_candidates m bp bn e best_inter_op_num_threads best_thread_pool_size =
     (if 1 < best_inter_op_num_threads
      then (if 1 < best_thread_pool_size
            then [combined_candidate m bp bn e best_inter_op_num_threads best_thread_pool_size]
            else [])
      else [])
     @ [default_candidate m bp bn e]"

text \<open>\<open>tests.append(params)\<close>: the object enters the store, its reference the list.\<close>

fun append_tests :: "PerfTestParams list \<Rightarrow> pstate \<times> nat list \<Rightarrow> pstate \<times> nat list" where
  "append_tests [] st = st"
| "append_tests (p # qs) (ps, tests) =
     append_tests qs (ps\<lparr>heap := heap ps @ [p]\<rparr>, tests @ [length (heap ps)])"

text \<open>
  Lines 476 to 527, the body of the loop over the environment combinations: intra-op (or
  OpenMP) tuning under the combination, then its candidates. \<open>intra_call\<close> is the
  argument list of the call at lines 488 to 497.
\<close>

definition intra_call :: "machine \<Rightarrow> Args \<Rightarrow> string \<Rightarrow> string \<Rightarrow> dict \<Rightarrow> tuner_call" where
  "intra_call m a bp bn e =
     (let env_option = env_option_of e;
          omp = (bn \<in> set omp_eps);
          nsuf = (if \<not> omp then ''_intra_threads'' else ''_OMP_threads'');
          dsuf = (if \<not> omp then '' intra_op_num_threads, '' else '' OMP_NUM_THREADS, '')
      in \<lparr>g_build_path = bp, g_build_name = bn,
          template = PerfTestParams_init m bp (bn @ ''_'') (bn @ '' '') bp
                       (provider_args bn) e bn,
          num_cores = intra_op_num_threads a,
          name_suffix = nsuf @ env_option, desc_suffix = dsuf @ env_option,
          is_omp = omp, tune_inter_ops = False\<rparr>)"

definition sweep_combo ::
  "machine \<Rightarrow> Args \<Rightarrow> string \<Rightarrow> string \<Rightarrow> string list \<Rightarrow> int \<Rightarrow> string list
     \<Rightarrow> pstate \<times> nat list \<Rightarrow> py_error + (pstate \<times> nat list)" where
  "sweep_combo m a bp bn env_names best_inter_op_num_threads combo st =
     (case gen_env_var_dict env_names combo of
        Inl e \<Rightarrow> Inl e
      | Inr e \<Rightarrow>
          (case run_perf_tuning_binary m a (intra_call m a bp bn e) (fst st) of
             Inl err \<Rightarrow> Inl err
           | Inr (best_thread_pool_size, ps1) \<Rightarrow>
               Inr (append_tests
                      (combo_candidates m bp bn e best_inter_op_num_threads
                         best_thread_pool_size)
                      (ps1, snd st))))"

fun sweep ::
  "machine \<Rightarrow> Args \<Rightarrow> string \<Rightarrow> string \<Rightarrow> string list \<Rightarrow> int \<Rightarrow> string list list
     \<Rightarrow> pstate \<times> nat list \<Rightarrow> py_error + (pstate \<times> nat list)" where
  "sweep m a bp bn env_names bi [] st = Inr st"
| "sweep m a bp bn env_names bi (combo # combos) st =
     (case sweep_combo m a bp bn env_names bi combo st of
        Inl e \<Rightarrow> Inl e
      | Inr st1 \<Rightarrow> sweep m a bp bn env_names bi combos st1)"

text \<open>
  Running a stored trial replaces the object at its reference. Lines 530 and 531 run
  every candidate once, for ranking; lines 542 and 543 run the profile candidates again,
  with percentiles.
\<close>

fun run_tests ::
  "machine \<Rightarrow> Args \<Rightarrow> bool \<Rightarrow> nat list \<Rightarrow> pstate \<Rightarrow> py_error + pstate" where
  "run_tests m a pct [] ps = Inr ps"
| "run_tests m a pct (r # rs) ps =
     (case run_perf_tuning m a (heap ps ! r) pct ps of
        Inl e \<Rightarrow> Inl e
      | Inr (p, ps1) \<Rightarrow> run_tests m a pct rs (ps1\<lparr>heap := (heap ps1)[r := p]\<rparr>))"

text \<open>
  \<open>sorted(xs, key=lambda e: e.avg)\<close>. A list of fewer than two elements is returned
  without any comparison. On a longer list every element takes part in a comparison, and
  comparing \<open>None\<close> raises; otherwise the sort is stable and ascending.
\<close>

definition sorted_by_avg :: "PerfTestParams list \<Rightarrow> nat list \<Rightarrow> py_error + nat list" where
  "sorted_by_avg h rs =
     (if length rs < 2 then Inr rs
      else if list_ex (\<lambda>r. avg (h ! r) = None) rs then Inl TypeError
      else Inr (sort_key (\<lambda>r. the (avg (h ! r))) rs))"

text \<open>Lines 533 to 539, after the candidates \<open>tests\<close> of provider \<open>bn\<close> have run.\<close>

definition keep_best :: "Args \<Rightarrow> string \<Rightarrow> nat list \<Rightarrow> mstate \<Rightarrow> py_error + mstate" where
  "keep_best a bn tests st =
     (let ps = prog st;
          extended = successful_tests ps @ filter (\<lambda>r. truthy (avg (heap ps ! r))) tests
      in case sorted_by_avg (heap ps) extended of
           Inl e \<Rightarrow> Inl e
         | Inr ranked \<Rightarrow>
             (let successful = py_take (top_n a) ranked;
                  st1 = (if 0 < length successful
                         then st\<lparr>successful_by_ep := ep_set (successful_by_ep st) bn successful,
                                 profile_candidates := profile_candidates st @ [hd successful]\<rparr>
                         else st)
              in Inr (st1\<lparr>prog := ps\<lparr>successful_tests := successful,
                                      failed_tests := failed_tests ps
                                        @ filter (\<lambda>r. \<not> truthy (avg (heap ps ! r))) tests\<rparr>\<rparr>)))"

text \<open>
  Lines 440 to 531, the first part of the body of the loop over the providers: tuning,
  building the candidates \<open>tests\<close> and running each of them once. The result is
  \<open>None\<close> for a provider whose build directory is missing, which is skipped, and
  otherwise the candidates with the state in which they have run.
\<close>

definition run_candidates ::
  "machine \<Rightarrow> Args \<Rightarrow> string \<Rightarrow> string \<Rightarrow> mstate \<Rightarrow> py_error + (nat list \<times> mstate) option" where
  "run_candidates m a bin_dir bn st =
     (case build_path_of m bin_dir bn of
        Inl e \<Rightarrow> Inl e
      | Inr bp \<Rightarrow>
          if isdir m bp
          then (case tune_inter m a bp bn ((prog st)\<lparr>successful_tests := []\<rparr>) of
                  Inl e \<Rightarrow> Inl e
                | Inr (best_inter_op_num_threads, ps1) \<Rightarrow>
                    (let env_vars = ep_envvar_map m bn;
                         env_names = (case env_vars of None \<Rightarrow> [] | Some d \<Rightarrow> map fst d)
                     in case sweep m a bp bn env_names best_inter_op_num_threads
                               (get_env_var_combos env_vars) (ps1, []) of
                          Inl e \<Rightarrow> Inl e
                        | Inr (ps2, tests) \<Rightarrow>
                            (case run_tests m a False tests ps2 of
                               Inl e \<Rightarrow> Inl e
                             | Inr ps3 \<Rightarrow> Inr (Some (tests, st\<lparr>prog := ps3\<rparr>)))))
          else Inr None)"

text \<open>Lines 440 to 539, the whole body of the loop over the providers.\<close>

definition tune_provider ::
  "machine \<Rightarrow> Args \<Rightarrow> string \<Rightarrow> string \<Rightarrow> mstate \<Rightarrow> py_error + mstate" where
  "tune_provider m a bin_dir bn st =
     (case run_candidates m a bin_dir bn st of
        Inl e \<Rightarrow> Inl e
      | Inr None \<Rightarrow> Inr st
      | Inr (Some (tests, st1)) \<Rightarrow> keep_best a bn tests st1)"

fun tune_providers ::
  "machine \<Rightarrow> Args \<Rightarrow> string \<Rightarrow> string list \<Rightarrow> mstate \<Rightarrow> py_error + mstate" where
  "tune_providers m a bin_dir [] st = Inr st"
| "tune_providers m a bin_dir (bn # bns) st =
     (case tune_provider m a bin_dir bn st of
        Inl e \<Rightarrow> Inl e
      | Inr st1 \<Rightarrow> tune_providers m a bin_dir bns st1)"

section \<open>Result aggregator: the report\<close>

text \<open>
  One entry of the JSON report (lines 564 to 576, without the code snippet, which is
  formatted text only). \<open>int(n * .9)\<close> and \<open>int(n * .95)\<close> are the floors of
  \<open>9n/10\<close> and \<open>19n/20\<close>: the float products round to the same integer part. The
  values are computed in float arithmetic, \<open>round(test.latencies[i] * 1000, 5)\<close> and
  \<open>round(test.cpu / 100, 5)\<close>.
\<close>

record json_record =
  j_name :: string
  j_command :: "string option"
  j_avg :: "rat option"
  j_p90 :: "rat option"
  j_p95 :: "rat option"
  j_cpu_usage :: rat
  j_gpu_usage :: rat
  j_memory_util :: rat

definition json_of :: "machine \<Rightarrow> PerfTestParams \<Rightarrow> json_record" where
  "json_of m t =
     (let num_latencies = length (latencies t)
      in \<lparr>j_name = name t, j_command = command t, j_avg = avg t,
          j_p90 = (if 10 \<le> num_latencies
                   then Some (float_round m
                                (float_mul m (latencies t ! ((num_latencies * 9) div 10)) 1000) 5)
                   else None),
          j_p95 = (if 20 \<le> num_latencies
                   then Some (float_round m
                                (float_mul m (latencies t ! ((num_latencies * 19) div 20)) 1000) 5)
                   else None),
          j_cpu_usage = float_round m (float_div m (cpu t) 100) 5,
          j_gpu_usage = float_round m (gpu t) 5,
          j_memory_util = float_round m (float_div m (memory t) 100) 5\<rparr>)"

text \<open>
  The report: the provider entries of the ordered dict \<open>out_json\<close>, and the value under
  its key \<open>failed\<close> (name and command of every failed trial; the key is absent when the
  list is empty). No provider can be named \<open>failed\<close>.
\<close>

record report =
  by_provider :: "(string \<times> json_record list) list"
  failed_runs :: "(string \<times> string option) list"

fun json_set ::
  "(string \<times> json_record list) list \<Rightarrow> string \<Rightarrow> json_record list
     \<Rightarrow> (string \<times> json_record list) list" where
  "json_set [] k v = [(k, v)]"
| "json_set ((k', v') # d) k v = (if k' = k then (k, v) # d else (k', v') # json_set d k v)"

text \<open>
  Lines 558 to 578. \<open>json_list\<close> is one list object, stored under the key of every
  trial it receives, so each key ends up holding the provider's whole list. Every profile
  candidate's provider has an entry in \<open>successful_by_ep\<close>.
\<close>

definition provider_entries ::
  "machine \<Rightarrow> PerfTestParams list \<Rightarrow> nat list
     \<Rightarrow> (string \<times> json_record list) list \<Rightarrow> (string \<times> json_record list) list" where
  "provider_entries m h rs out =
     foldl (\<lambda>acc r. json_set acc (build_name (h ! r)) (map (\<lambda>q. json_of m (h ! q)) rs)) out rs"

fun report_successes ::
  "machine \<Rightarrow> PerfTestParams list \<Rightarrow> (string \<times> nat list) list \<Rightarrow> nat list
     \<Rightarrow> (string \<times> json_record list) list \<Rightarrow> (string \<times> json_record list) list" where
  "report_successes m h by_ep [] out = out"
| "report_successes m h by_ep (c # cs) out =
     report_successes m h by_ep cs
       (case map_of by_ep (build_name (h ! c)) of
          None \<Rightarrow> out
        | Some rs \<Rightarrow> provider_entries m h rs out)"

text \<open>Lines 545 and 546: without a GPU, failed CUDA and TensorRT trials are dropped.\<close>

definition gpu_filter :: "machine \<Rightarrow> PerfTestParams list \<Rightarrow> nat list \<Rightarrow> nat list" where
  "gpu_filter m h failed =
     (if num_gpus m = 0
      then filter (\<lambda>r. \<not> str_in ''cuda'' (name (h ! r)) \<and> \<not> str_in ''tensorrt'' (name (h ! r))) failed
      else failed)"

text \<open>
  Lines 541 to 589: re-profile each provider's best trial, filter the failures, sort the
  profile candidates again, and write the report.
\<close>

definition aggregate :: "machine \<Rightarrow> Args \<Rightarrow> mstate \<Rightarrow> py_error + report" where
  "aggregate m a st =
     (case run_tests m a True (profile_candidates st) (prog st) of
        Inl e \<Rightarrow> Inl e
      | Inr ps \<Rightarrow>
          (let failed = gpu_filter m (heap ps) (failed_tests ps)
           in case sorted_by_avg (heap ps) (profile_candidates st) of
                Inl e \<Rightarrow> Inl e
              | Inr cands \<Rightarrow>
                  Inr \<lparr>by_provider = report_successes m (heap ps) (successful_by_ep st) cands [],
                       failed_runs = map (\<lambda>r. (name (heap ps ! r), command (heap ps ! r))) failed\<rparr>))"

text \<open>
  The main block from line 415 on; \<open>bin_dir\<close> is the directory of the builds.
\<close>

definition initial :: mstate where
  "initial =
     \<lparr>prog = \<lparr>procs = 0, uuids = 0, heap = [], failed_tests = [], successful_tests = []\<rparr>,
      successful_by_ep = [], profile_candidates = []\<rparr>"

text \<open>Line 417: the providers of the run.\<close>

definition providers_of :: "Args \<Rightarrow> string list" where
  "providers_of a =
     (if 0 < length (execution_provider a)
      then filter (\<lambda>p. p \<noteq> []) (split_comma (execution_provider a))
      else allProviders)"

definition main :: "machine \<Rightarrow> Args \<Rightarrow> string \<Rightarrow> py_error + report" where
  "main m a bin_dir =
     (case tune_providers m a bin_dir (providers_of a) initial of
        Inl e \<Rightarrow> Inl e
      | Inr st \<Rightarrow> aggregate m a st)"

section \<open>The tuner as the specification words it\<close>

text \<open>
  The second definition of the search, written from the specification (section 4.3)
  rather than from the code. Step 2 is a plain bisection: probe the floor-midpoint of the
  window; a worse latency pulls the upper bound to \<open>mid - 1\<close>, a better or equal one
  becomes the best and moves the lower bound to \<open>mid + 1\<close>; the midpoint 2 is never
  probed again; a failed probe ends the search with the best found so far. There is no
  restart check in it, and the field \<open>rerun\<close> of the state is never read.
\<close>

definition bisect_step ::
  "machine \<Rightarrow> Args \<Rightarrow> tuner_call \<Rightarrow> search \<Rightarrow> pstate \<Rightarrow> py_error + (search \<times> pstate) flow" where
  "bisect_step m a c s ps =
     (let mid = lower s + (upper s - lower s) div 2
      in if mid = 2 then Inr (Break (s, ps))
         else (case run_perf_tuning m a (thread_param m c mid) False ps of
                 Inl e \<Rightarrow> Inl e
               | Inr (param, ps1) \<Rightarrow>
                   if \<not> truthy (avg param) then Inr (Break (s, append_failed param ps1))
                   else if best_latency s < the (avg param)
                   then Inr (Next (s\<lparr>upper := mid - 1\<rparr>, append_successful param ps1))
                   else Inr (Next (s\<lparr>lower := mid + 1, best_latency := the (avg param),
                                      best_run := mid\<rparr>,
                                   append_successful param ps1))))"

function bisect ::
  "machine \<Rightarrow> Args \<Rightarrow> tuner_call \<Rightarrow> search \<Rightarrow> pstate \<Rightarrow> py_error + (search \<times> pstate)" where
  "bisect m a c s ps =
     (if lower s \<le> upper s
      then (case bisect_step m a c s ps of
              Inl e \<Rightarrow> Inl e
            | Inr (Break r) \<Rightarrow> Inr r
            | Inr (Next (s', ps')) \<Rightarrow> bisect m a c s' ps')
      else Inr (s, ps))"
  by pat_completeness auto
termination
proof (relation "measure (\<lambda>(m, a, c, s, ps). nat (upper s - lower s + 1))")
  show "wf (measure (\<lambda>(m, a, c, s, ps). nat (upper s - lower s + 1)))"
    by simp
next
  fix m :: machine and a :: Args and c :: tuner_call and s s' :: search and ps ps' :: pstate
    and f :: "(search \<times> pstate) flow" and r :: "search \<times> pstate"
  assume "lower s \<le> upper s"
    and "bisect_step m a c s ps = Inr f" "f = Next r" "(s', ps') = r"
  then have "nat (upper s' - lower s' + 1) < nat (upper s - lower s + 1)"
    unfolding bisect_step_def Let_def
    by (auto split: if_splits sum.splits prod.splits)
  then show "((m, a, c, s', ps'), (m, a, c, s, ps))
               \<in> measure (\<lambda>(m, a, c, s, ps). nat (upper s - lower s + 1))"
    by simp
qed

declare bisect.simps [simp del]

text \<open>
  The original full range of a search is \<open>[2, upper0]\<close>, with \<open>upper0 = num_cores\<close>
  under OpenMP and \<open>num_cores - 1\<close> otherwise (one core is reserved); its midpoint is
  the floor-midpoint, as everywhere in the search.
\<close>

definition original_upper :: "tuner_call \<Rightarrow> int" where
  "original_upper c = (if is_omp c then num_cores c else num_cores c - 1)"

definition original_midpoint :: "tuner_call \<Rightarrow> int" where
  "original_midpoint c = 2 + (original_upper c - 2) div 2"

text \<open>
  Step 3: when the bisection has converged (the window is empty) and the best thread count
  is exactly the midpoint of the original full range, one more bisection runs on the lower
  half of that range, the window from 2 to just below the midpoint, and then the search is
  over.
\<close>

definition spec_search ::
  "machine \<Rightarrow> Args \<Rightarrow> tuner_call \<Rightarrow> search \<Rightarrow> pstate \<Rightarrow> py_error + (search \<times> pstate)" where
  "spec_search m a c s ps =
     (case bisect m a c s ps of
        Inl e \<Rightarrow> Inl e
      | Inr (s1, ps1) \<Rightarrow>
          if upper s1 < lower s1 \<and> best_run s1 = original_midpoint c
          then bisect m a c (s1\<lparr>upper := original_midpoint c - 1, lower := 2\<rparr>) ps1
          else Inr (s1, ps1))"

text \<open>The contract: empty range, step 1 (baseline), then steps 2 and 3.\<close>

definition spec_tuner ::
  "machine \<Rightarrow> Args \<Rightarrow> tuner_call \<Rightarrow> pstate \<Rightarrow> py_error + (int \<times> pstate)" where
  "spec_tuner m a c ps =
     (let upper0 = original_upper c
      in if upper0 < 2 then Inr (- 1, ps)
         else (case run_perf_tuning m a (thread_param m c 2) False ps of
                 Inl e \<Rightarrow> Inl e
               | Inr (param, ps1) \<Rightarrow>
                   if \<not> truthy (avg param) then Inr (- 1, append_failed param ps1)
                   else (case spec_search m a c
                                \<lparr>lower = 3, upper = upper0, best_latency = the (avg param),
                                 best_run = 2, rerun = False\<rparr>
                                (append_successful param ps1) of
                           Inl e \<Rightarrow> Inl e
                         | Inr (s, ps2) \<Rightarrow> Inr (best_run s, ps2))))"

text \<open>What a search returns: the best thread count and the program state.\<close>

definition found :: "py_error + (search \<times> pstate) \<Rightarrow> py_error + (int \<times> pstate)" where
  "found r = (case r of Inl e \<Rightarrow> Inl e | Inr (s, ps) \<Rightarrow> Inr (best_run s, ps))"

section \<open>Example worlds\<close>

text \<open>
  The exact rounding of a rational to \<open>d\<close> decimal places, ties to the even neighbour.
  This is not the builtin \<open>round\<close>, which works on the binary value of a float and
  returns a float; the two agree when the argument is a float and the exact result is one
  too.
\<close>

definition round_half_even :: "rat \<Rightarrow> int" where
  "round_half_even y =
     (let f = \<lfloor>y\<rfloor>; r = y - of_int f
      in if r < 1 / 2 then f else if 1 / 2 < r then f + 1 else if even f then f else f + 1)"

definition decimal_round :: "rat \<Rightarrow> nat \<Rightarrow> rat" where
  "decimal_round x d = of_int (round_half_even (x * 10 ^ d)) / 10 ^ d"

text \<open>
  Concrete worlds for the example runs below. The benchmark writes one five-field line
  whose second field is the latency; \<open>failed_run\<close> exits with code 1 and writes nothing.
  \<open>bench_machine run\<close> fixes everything but the benchmark: no GPU, every build
  directory present, no environment variables declared for any provider, and a \<open>float\<close>
  that knows the few tokens used.

  Every latency of the examples is a multiple of 1/8 s (or, in one example, of
  \<open>1 / 2 ^ 28\<close> s), and every sum, quotient, product and rounded value that an example
  computes from them is a binary fraction of few digits. On such values the float
  operations are exact, so the example worlds take the exact operations for them: the
  numbers in the examples are the floats that the interpreter computes.
\<close>

fun arg_after :: "string \<Rightarrow> string list \<Rightarrow> string" where
  "arg_after f [] = []"
| "arg_after f [x] = []"
| "arg_after f (x # y # ys) = (if x = f then y else arg_after f (y # ys))"

definition ok_run :: "string \<Rightarrow> proc" where
  "ok_run tok = \<lparr>returncode = 0, result_lines = Some [''0,'' @ tok @ '',0,0,0'']\<rparr>"

definition failed_run :: proc where
  "failed_run = \<lparr>returncode = 1, result_lines = None\<rparr>"

definition bench_machine :: "(nat \<Rightarrow> string list \<Rightarrow> dict \<Rightarrow> proc) \<Rightarrow> machine" where
  "bench_machine run =
     \<lparr>subprocess_run = run,
      uuid4 = str_nat,
      float_of = map_of [(''0.125'', 1 / 8), (''0.25'', 1 / 4), (''0.375'', 3 / 8), (''0'', 0)],
      float_sum = sum_list,
      float_div = (\<lambda>x y. x / y),
      float_mul = (\<lambda>x y. x * y),
      float_round = decimal_round,
      path_join = (\<lambda>d f. d @ ''/'' @ f),
      os_environ = [],
      is_windows = False,
      monitor = (\<lambda>k x. ([], [], [])),
      profile_export = (\<lambda>k. None),
      isdir = (\<lambda>d. True),
      num_gpus = 0,
      ep_envvar_map = (\<lambda>ep. None)\<rparr>"

text \<open>A benchmark whose latency depends on the thread count given with \<open>-x\<close> only.\<close>

definition by_threads :: "(string \<times> string) list \<Rightarrow> nat \<Rightarrow> string list \<Rightarrow> dict \<Rightarrow> proc" where
  "by_threads tbl k argv e =
     (case map_of tbl (arg_after ''-x'' argv) of None \<Rightarrow> failed_run | Some tok \<Rightarrow> ok_run tok)"

text \<open>
  A benchmark whose latency depends on \<open>OMP_NUM_THREADS\<close> in its environment only.
\<close>

definition by_omp_threads ::
  "(string \<times> string) list \<Rightarrow> nat \<Rightarrow> string list \<Rightarrow> dict \<Rightarrow> proc" where
  "by_omp_threads tbl k argv e =
     (case map_of e ''OMP_NUM_THREADS'' of
        None \<Rightarrow> failed_run
      | Some n \<Rightarrow> (case map_of tbl n of None \<Rightarrow> failed_run | Some tok \<Rightarrow> ok_run tok))"

definition base_args :: Args where
  "base_args =
     \<lparr>model = ''model.onnx'', result = ''out'', test_mode = ''times'',
      repeated_times = ''20'', duration_time = Some ''10'', intra_op_num_threads = 5,
      inter_op_num_threads = 5, top_n = 3, parallel = False, optimization_level = ''99'',
      execution_provider = ''cpu''\<rparr>"

text \<open>
  The call that the main block makes for provider \<open>cpu\<close> under the empty environment
  combination (lines 488 to 497), with \<open>n\<close> as the thread ceiling.
\<close>

definition cpu_call :: "machine \<Rightarrow> int \<Rightarrow> tuner_call" where
  "cpu_call m n =
     \<lparr>g_build_path = ''bin/all_eps'', g_build_name = ''cpu'',
      template = PerfTestParams_init m ''bin/all_eps'' ''cpu_'' ''cpu '' ''bin/all_eps''
                   [''-e'', ''cpu''] [] ''cpu'',
      num_cores = n, name_suffix = ''_intra_threads'',
      desc_suffix = '' intra_op_num_threads, '',
      is_omp = False, tune_inter_ops = False\<rparr>"

text \<open>Five cores: 250, 125 and 375 ms at 2, 3 and 4 threads.\<close>

definition m5 :: machine where
  "m5 = bench_machine (by_threads [(''2'', ''0.25''), (''3'', ''0.125''), (''4'', ''0.375'')])"

text \<open>Nine cores: 375, 250, 125, 250 and 375 ms at 2, 3, 5, 6 and 7 threads.\<close>

definition m9 :: machine where
  "m9 = bench_machine (by_threads [(''2'', ''0.375''), (''3'', ''0.25''), (''5'', ''0.125''),
                                   (''6'', ''0.25''), (''7'', ''0.375'')])"

text \<open>
  An OpenMP provider: 375, 250, 125, 250 and 375 ms at 2, 3, 5, 6 and 7 OpenMP threads.
\<close>

definition omp8 :: machine where
  "omp8 = bench_machine (by_omp_threads [(''2'', ''0.375''), (''3'', ''0.25''),
                                         (''5'', ''0.125''), (''6'', ''0.25''),
                                         (''7'', ''0.375'')])"

text \<open>
  Five cores: 250, 125 and 250 ms at 2, 3 and 4 threads, and 375 ms with no \<open>-x\<close> given.
\<close>

definition m5c :: machine where
  "m5c = bench_machine (by_threads [(''2'', ''0.25''), (''3'', ''0.125''), (''4'', ''0.25''),
                                    ('''', ''0.375'')])"


text \<open>Every process reports 250 ms, but the process with index \<open>n\<close> exits with code 1.\<close>

definition nth_fails :: "nat \<Rightarrow> machine" where
  "nth_fails n = bench_machine (\<lambda>k argv e. if k = n then failed_run else ok_run ''0.25'')"

text \<open>Every process reports 250 ms.\<close>

definition steady :: machine where
  "steady = bench_machine (\<lambda>k argv e. ok_run ''0.25'')"

text \<open>Every process exits with code 1.\<close>

definition broken :: machine where
  "broken = bench_machine (\<lambda>k argv e. failed_run)"

text \<open>The arguments with a thread ceiling of one, so that no tuning takes place.\<close>

definition one_core :: "string \<Rightarrow> Args" where
  "one_core eps = base_args\<lparr>intra_op_num_threads := 1, execution_provider := eps\<rparr>"

text \<open>Every process exits with code 0 and leaves an empty result file.\<close>

definition empty_output :: machine where
  "empty_output = bench_machine (\<lambda>k argv e. \<lparr>returncode = 0, result_lines = Some []\<rparr>)"

text \<open>A trial as the ranking phase leaves it: run once, with an average of 250 ms.\<close>

definition ranked_trial :: PerfTestParams where
  "ranked_trial =
     (default_candidate empty_output ''bin/all_eps'' ''cpu'' [])
       \<lparr>command := Some ''bin/all_eps/onnxruntime_perf_test -e cpu -o 99 -m times -r 20 model.onnx out/0'',
        avg := Some 250, latencies := [1 / 4]\<rparr>"


text \<open>Twenty-five samples, 25/8 s down to 1/8 s.\<close>

definition samples25 :: "rat list" where
  "samples25 = rev (map (\<lambda>i. of_nat i / 8) [1..<26])"

text \<open>
  Sixteen samples: fourteen of 1 s, one of \<open>1 + 1 / 2 ^ 28\<close> s (the float
  1.0000000037252903) and one of \<open>2 - 1 / 2 ^ 28\<close> s. Their sum is 17 and their mean
  1.0625, both exact.
\<close>

definition samples16 :: "rat list" where
  "samples16 = replicate 14 1 @ [1 + 1 / 2 ^ 28, 2 - 1 / 2 ^ 28]"

section \<open>Evaluation\<close>

text \<open>The definitions that an example run unfolds.\<close>

lemmas example_defs =
  bench_machine_def by_threads_def by_omp_threads_def ok_run_def failed_run_def base_args_def
  cpu_call_def initial_def

lemmas runner_defs =
  run_perf_tuning_def thread_param_def PerfTestParams_init_def get_args_def
  get_common_args_def store_latencies_def truthy_def str_int_def str_nat.simps dict_pop_def
  Let_def strip_def is_space_def decimal_round_def round_half_even_def

lemmas tuner_defs =
  run_perf_tuning_binary_def search_loop.simps iteration_def restart_def
  append_failed_def append_successful_def

lemmas main_defs =
  main_def providers_of_def tune_provider_def run_candidates_def build_path_of_def
  allProviders_def parallel_eps_def omp_eps_def provider_args_def tune_inter_def
  get_env_var_combos_def gen_env_var_dict_def sweep_combo_def intra_call_def
  env_option_of_def combo_candidates_def default_candidate_def combined_candidate_def
  keep_best_def sorted_by_avg_def py_take_def aggregate_def gpu_filter_def
  provider_entries_def json_of_def profile_run_def get_percentiles_args_def
  get_profile_args_def mean5_def updateEnv_def

lemmas spec_defs =
  spec_tuner_def spec_search_def bisect.simps bisect_step_def original_midpoint_def
  original_upper_def append_failed_def append_successful_def

section \<open>The trial runner's effect on the world\<close>

lemma run_perf_tuning_ranking_world:
  assumes "run_perf_tuning m a p False w = Inr (p', w')"
  shows "w' = w\<lparr>procs := procs w + 2, uuids := uuids w + 1\<rparr>"
  using assms unfolding run_perf_tuning_def Let_def
  by (auto split: if_splits sum.splits)

section \<open>Claims about the thread-count tuner\<close>

text \<open>
  C8. Whenever the range is not empty and the baseline trial at two threads comes back
  with a falsy average, the tuner returns \<open>-1\<close>. The program state it leaves differs from
  the one it started in by exactly this: two more processes have run (the warm-up and the
  measured run of the one baseline trial) under one more result-file name, and the
  baseline trial is the one new object, appended to \<open>failed_tests\<close>. Nothing is appended
  to \<open>successful_tests\<close>, and no further process runs.
\<close>

theorem baseline_failure_aborts:
  assumes "2 \<le> (if is_omp c then num_cores c else num_cores c - 1)"
    and "run_perf_tuning m a (thread_param m c 2) False ps = Inr (param, ps1)"
    and "\<not> truthy (avg param)"
  shows "run_perf_tuning_binary m a c ps =
           Inr (- 1, ps\<lparr>procs := procs ps + 2, uuids := uuids ps + 1,
                        heap := heap ps @ [param],
                        failed_tests := failed_tests ps @ [length (heap ps)]\<rparr>)"
proof -
  have w: "ps1 = ps\<lparr>procs := procs ps + 2, uuids := uuids ps + 1\<rparr>"
    using assms(2) by (rule run_perf_tuning_ranking_world)
  show ?thesis
    using assms unfolding run_perf_tuning_binary_def Let_def
    by (simp add: w append_failed_def)
qed

text \<open>
  An instance: provider \<open>cpu\<close> with five cores on a machine where every benchmark run
  exits with code 1.
\<close>

theorem baseline_failure_aborts_witness:
  "(case run_perf_tuning_binary (bench_machine (by_threads [])) base_args
           (cpu_call (bench_machine (by_threads [])) 5) (prog initial) of
      Inl e \<Rightarrow> None
    | Inr (b, ps) \<Rightarrow>
        Some (b, procs ps, map (\<lambda>r. name (heap ps ! r)) (failed_tests ps),
              successful_tests ps))
   = Some (- 1, 2, [''cpu_2_intra_threads''], [])"
proof -
  let ?m = "bench_machine (by_threads [])"
  let ?c = "cpu_call ?m 5"
  have h1: "2 \<le> (if is_omp ?c then num_cores ?c else num_cores ?c - 1)"
    by (simp add: cpu_call_def)
  obtain param ps1
    where h2: "run_perf_tuning ?m base_args (thread_param ?m ?c 2) False (prog initial)
                 = Inr (param, ps1)"
      and h3: "\<not> truthy (avg param)"
      and nm: "name param = ''cpu_2_intra_threads''"
    by (simp add: example_defs runner_defs)
  show ?thesis
    using baseline_failure_aborts [OF h1 h2 h3] nm
    by (simp add: initial_def)
qed

text \<open>
  C1, as amended. Take any state of the loop with a window that is not empty, and let
  \<open>mid\<close> be its floor-midpoint. If \<open>mid\<close> is 2 the loop ends there, with no probe and
  the state unchanged. Otherwise the iteration runs the trial for \<open>mid\<close> threads; when
  that trial comes back with a truthy average it is appended to \<open>successful_tests\<close>, and
  the loop goes on from the window that the decision rule gives (upper bound \<open>mid - 1\<close>
  when the best latency so far is strictly smaller than the probe's; otherwise lower bound
  \<open>mid + 1\<close> with the probe as the new best), after the restart check of lines 284 to
  288 has been applied to it.
\<close>

theorem probe_decision_rule:
  assumes "lower s \<le> upper s"
    and "mid = lower s + (upper s - lower s) div 2"
  shows "(mid = 2 \<longrightarrow> search_loop m a c s ps = Inr (s, ps)) \<and>
         (mid \<noteq> 2 \<and> run_perf_tuning m a (thread_param m c mid) False ps = Inr (param, ps1)
            \<and> truthy (avg param) \<longrightarrow>
          search_loop m a c s ps =
            search_loop m a c
              (restart c (if best_latency s < the (avg param)
                          then s\<lparr>upper := mid - 1\<rparr>
                          else s\<lparr>lower := mid + 1, best_latency := the (avg param),
                                 best_run := mid\<rparr>))
              (append_successful param ps1))"
  using assms
  by (simp add: search_loop.simps [of m a c s ps] iteration_def Let_def)

text \<open>
  An instance: five cores, latencies 250, 125, 375 ms at 2, 3, 4 threads. In the state
  after the baseline the window is 3 to 4; the probe at 3 measures 125 ms, which is not
  worse than 250, so the loop goes on with the window 4 to 4 and 3 as the best.
\<close>

theorem probe_decision_rule_witness:
  "\<exists>param ps1.
     run_perf_tuning m5 base_args (thread_param m5 (cpu_call m5 5) 3) False
        \<lparr>procs = 2, uuids = 1, heap = [], failed_tests = [], successful_tests = []\<rparr>
       = Inr (param, ps1)
     \<and> avg param = Some 125
     \<and> search_loop m5 base_args (cpu_call m5 5)
         \<lparr>lower = 3, upper = 4, best_latency = 250, best_run = 2, rerun = False\<rparr>
         \<lparr>procs = 2, uuids = 1, heap = [], failed_tests = [], successful_tests = []\<rparr>
       = search_loop m5 base_args (cpu_call m5 5)
           \<lparr>lower = 4, upper = 4, best_latency = 125, best_run = 3, rerun = False\<rparr>
           (append_successful param ps1)"
proof -
  let ?ps = "\<lparr>procs = 2, uuids = 1, heap = [], failed_tests = [], successful_tests = []\<rparr>"
  let ?s = "\<lparr>lower = 3, upper = 4, best_latency = 250, best_run = 2, rerun = False\<rparr>"
  obtain param ps1
    where run: "run_perf_tuning m5 base_args (thread_param m5 (cpu_call m5 5) 3) False ?ps
                  = Inr (param, ps1)"
      and av: "avg param = Some 125"
    by (simp add: m5_def example_defs runner_defs)
  have "search_loop m5 base_args (cpu_call m5 5) ?s ?ps
          = search_loop m5 base_args (cpu_call m5 5)
              \<lparr>lower = 4, upper = 4, best_latency = 125, best_run = 3, rerun = False\<rparr>
              (append_successful param ps1)"
    using probe_decision_rule [of ?s 3 m5 base_args "cpu_call m5 5" ?ps param ps1] run av
    by (simp add: truthy_def restart_def cpu_call_def)
  with run av show ?thesis by blast
qed

text \<open>
  C1 as stated fails on the same run. The probe at 4 is worse, the window becomes empty
  with best 3, the midpoint of five cores, and the restart sets the window to 2 to 2. The
  loop body is entered a third time with that window, finds \<open>mid = 2\<close> and leaves
  without a probe: the search ends with a window that is not empty, no failed trial, and
  six processes in all, the warm-up and the measured run of the three trials at 2, 3
  and 4.
\<close>

theorem midpoint_two_is_not_probed:
  "(case run_perf_tuning m5 base_args (thread_param m5 (cpu_call m5 5) 2) False (prog initial) of
      Inl e \<Rightarrow> None
    | Inr (p, ps1) \<Rightarrow>
        (case search_loop m5 base_args (cpu_call m5 5)
                \<lparr>lower = 3, upper = 4, best_latency = the (avg p), best_run = 2, rerun = False\<rparr>
                (append_successful p ps1) of
           Inl e \<Rightarrow> None
         | Inr (s, ps) \<Rightarrow>
             Some (s, procs ps, failed_tests ps,
                   iteration m5 base_args (cpu_call m5 5) s ps = Inr (Break (s, ps)))))
   = Some (\<lparr>lower = 2, upper = 2, best_latency = 125, best_run = 3, rerun = True\<rparr>, 6, [], True)"
  by (simp add: m5_def example_defs runner_defs tuner_defs)

subsection \<open>The restart\<close>

text \<open>
  After the restart the loop of the code is a plain bisection: the flag \<open>rerun\<close> is
  set, so the check of lines 284 to 288 never fires again.
\<close>

lemma iteration_after_restart:
  assumes "rerun s"
  shows "iteration m a c s ps =
           (case bisect_step m a c (s\<lparr>rerun := b\<rparr>) ps of
              Inl e \<Rightarrow> Inl e
            | Inr (Break (t, q)) \<Rightarrow> Inr (Break (t\<lparr>rerun := True\<rparr>, q))
            | Inr (Next (t, q)) \<Rightarrow> Inr (Next (t\<lparr>rerun := True\<rparr>, q)))"
  using assms unfolding iteration_def bisect_step_def restart_def Let_def
  by (auto split: sum.splits prod.splits)

lemma bisect_step_rerun:
  "bisect_step m a c s ps = Inr (Next (t, q)) \<Longrightarrow> rerun t = rerun s"
  unfolding bisect_step_def Let_def
  by (auto split: if_splits sum.splits prod.splits)

lemma search_loop_after_restart:
  "rerun s \<Longrightarrow> found (search_loop m a c s ps) = found (bisect m a c (s\<lparr>rerun := b\<rparr>) ps)"
proof (induction m a c s ps rule: search_loop.induct)
  case (1 m a c s ps)
  let ?s = "s\<lparr>rerun := b\<rparr>"
  show ?case
  proof (cases "lower s \<le> upper s")
    case False
    then show ?thesis by (simp add: search_loop.simps bisect.simps found_def)
  next
    case True
    note it = iteration_after_restart [OF "1.prems", of m a c ps b]
    show ?thesis
    proof (cases "bisect_step m a c ?s ps")
      case (Inl e)
      then show ?thesis using True it
        by (simp add: search_loop.simps [of m a c s] bisect.simps [of m a c ?s] found_def)
    next
      case (Inr f)
      show ?thesis
      proof (cases f)
        case (Break r)
        then show ?thesis using True it Inr
          by (cases r) (simp add: search_loop.simps [of m a c s] bisect.simps [of m a c ?s] found_def)
      next
        case (Next r)
        obtain t q where r: "r = (t, q)" by (cases r)
        have step: "iteration m a c s ps = Inr (Next (t\<lparr>rerun := True\<rparr>, q))"
          using it Inr Next r by simp
        have "rerun t = b"
          using bisect_step_rerun [of m a c ?s ps t q] Inr Next r by simp
        then have t: "t\<lparr>rerun := True\<rparr>\<lparr>rerun := b\<rparr> = t" by simp
        have "found (search_loop m a c (t\<lparr>rerun := True\<rparr>) q) = found (bisect m a c t q)"
          using "1.IH" [OF True step refl refl] t by simp
        then show ?thesis
          using True step Inr Next r
          by (simp add: search_loop.simps [of m a c s] bisect.simps [of m a c ?s])
      qed
    qed
  qed
qed

text \<open>
  The number that line 284 compares the best thread count with, \<open>(1 + num_cores) div 2\<close>,
  is the midpoint of the original range when one core is reserved, and under OpenMP when
  \<open>num_cores\<close> is odd. Under OpenMP with an even \<open>num_cores\<close> it is the midpoint
  minus one.
\<close>

lemma requested_midpoint:
  "\<not> is_omp c \<or> odd (num_cores c) \<Longrightarrow> original_midpoint c = (1 + num_cores c) div 2"
  "is_omp c \<and> even (num_cores c) \<Longrightarrow> original_midpoint c = (1 + num_cores c) div 2 + 1"
proof -
  have mid: "2 + (n - 1 - 2) div 2 = (1 + n) div 2"
    "odd n \<Longrightarrow> 2 + (n - 2) div 2 = (1 + n) div 2"
    "even n \<Longrightarrow> 2 + (n - 2) div 2 = (1 + n) div 2 + 1" for n :: int
    by presburger+
  show "\<not> is_omp c \<or> odd (num_cores c) \<Longrightarrow> original_midpoint c = (1 + num_cores c) div 2"
    using mid(1,2) [of "num_cores c"] by (auto simp: original_midpoint_def original_upper_def)
  show "is_omp c \<and> even (num_cores c) \<Longrightarrow> original_midpoint c = (1 + num_cores c) div 2 + 1"
    using mid(3) [of "num_cores c"] by (auto simp: original_midpoint_def original_upper_def)
qed

text \<open>
  Where the two numbers agree, the loop of the code computes what the two-phase search of
  the specification computes.
\<close>

lemma search_loop_refines:
  assumes "\<not> rerun s"
    and "upper s < lower s \<Longrightarrow> best_run s = (1 + num_cores c) div 2 \<Longrightarrow> (1 + num_cores c) div 2 \<le> 2"
    and "original_midpoint c = (1 + num_cores c) div 2"
  shows "found (search_loop m a c s ps) = found (spec_search m a c s ps)"
  using assms
proof (induction m a c s ps rule: search_loop.induct)
  case (1 m a c s ps)
  let ?M = "(1 + num_cores c) div 2"
  note om = "1.prems"(3)
  show ?case
  proof (cases "lower s \<le> upper s")
    case False
    then have "best_run s = ?M \<longrightarrow> ?M \<le> 2"
      using "1.prems"(2) by auto
    with False show ?thesis
      by (auto simp: search_loop.simps [of m a c s] bisect.simps spec_search_def found_def om)
  next
    case True
    define mid where "mid = lower s + (upper s - lower s) div 2"
    show ?thesis
    proof (cases "bisect_step m a c s ps")
      case (Inl e)
      then have "iteration m a c s ps = Inl e"
        unfolding iteration_def bisect_step_def Let_def
        by (auto split: if_splits sum.splits prod.splits)
      then show ?thesis using True Inl
        by (simp add: search_loop.simps [of m a c s] bisect.simps [of m a c s] spec_search_def found_def)
    next
      case (Inr f)
      show ?thesis
      proof (cases f)
        case (Break r)
        obtain t q where r: "r = (t, q)" by (cases r)
        have ts: "t = s"
          using Inr Break r unfolding bisect_step_def Let_def
          by (auto split: if_splits sum.splits prod.splits)
        have "iteration m a c s ps = Inr (Break (t, q))"
          using Inr Break r unfolding iteration_def bisect_step_def Let_def
          by (auto split: if_splits sum.splits prod.splits)
        then show ?thesis using True Inr Break r ts
          by (simp add: search_loop.simps [of m a c s] bisect.simps [of m a c s] spec_search_def found_def)
      next
        case (Next r)
        obtain t q where r: "r = (t, q)" by (cases r)
        have bs: "bisect_step m a c s ps = Inr (Next (t, q))" using Inr Next r by simp
        have step: "iteration m a c s ps = Inr (Next (restart c t, q))"
          using bs unfolding iteration_def bisect_step_def Let_def
          by (auto split: if_splits sum.splits prod.splits)
        have nr: "\<not> rerun t" using bisect_step_rerun [OF bs] "1.prems"(1) by simp
        have spec: "spec_search m a c s ps = spec_search m a c t q"
          using True bs by (simp add: spec_search_def bisect.simps [of m a c s])
        have loop: "search_loop m a c s ps = search_loop m a c (restart c t) q"
          using True step by (simp add: search_loop.simps [of m a c s])
        show ?thesis
        proof (cases "upper t < lower t \<and> best_run t = ?M")
          case False
          then have rt: "restart c t = t" by (auto simp: restart_def)
          have "found (search_loop m a c (restart c t) q) = found (spec_search m a c (restart c t) q)"
            using "1.IH" [OF True step refl refl] nr False rt om by auto
          then show ?thesis using spec loop rt by simp
        next
          case fire: True
          let ?t = "t\<lparr>upper := ?M - 1, lower := 2\<rparr>"
          have rt: "restart c t = ?t\<lparr>rerun := True\<rparr>"
            using fire nr by (simp add: restart_def)
          have tf: "?t\<lparr>rerun := False\<rparr> = ?t"
            using nr by (cases t) simp
          have "found (search_loop m a c (restart c t) q) = found (bisect m a c ?t q)"
            using search_loop_after_restart [of "restart c t" m a c q False] tf
            by (simp add: rt)
          moreover have "spec_search m a c t q = bisect m a c ?t q"
            using fire by (simp add: spec_search_def bisect.simps [of m a c t] om)
          ultimately show ?thesis using spec loop by simp
        qed
      qed
    qed
  qed
qed

text \<open>
  So for every call that reserves one core, and for every OpenMP call with an odd
  \<open>num_cores\<close>, the tuner of the code, with its \<open>rerun\<close> flag and its check at the end
  of every successful iteration, is the two-phase search: same result, same trials in the
  same order, in every world and from every program state.
\<close>

lemma tuner_is_two_phase_search:
  assumes "\<not> is_omp c \<or> odd (num_cores c)"
  shows "run_perf_tuning_binary m a c ps = spec_tuner m a c ps"
proof -
  have om: "original_midpoint c = (1 + num_cores c) div 2"
    using assms by (rule requested_midpoint(1))
  have "found (search_loop m a c \<lparr>lower = 3, upper = u, best_latency = l, best_run = 2, rerun = False\<rparr> q)
          = found (spec_search m a c \<lparr>lower = 3, upper = u, best_latency = l, best_run = 2, rerun = False\<rparr> q)"
    for u l q
    by (rule search_loop_refines) (simp_all add: om)
  then show ?thesis
    unfolding run_perf_tuning_binary_def spec_tuner_def original_upper_def Let_def found_def
    by (auto split: sum.splits prod.splits)
qed

text \<open>
  C2. The claim fails for an OpenMP provider with an even thread ceiling. Provider
  \<open>dnnl\<close>, \<open>intra_op_num_threads = 8\<close>: the original range is 2 to 8 and its midpoint
  is 5. With latencies of 375, 125, 375 and 250 ms at 2, 5, 7 and 6 OpenMP threads the
  bisection probes 5, 7 and 6 and converges with 5 as the best thread count, the midpoint
  of the original range. The claim has the search restart on 2 to 4, where it would probe
  3; the two-phase search of the specification does so. The code compares 5 with
  \<open>(1 + 8) div 2 = 4\<close> and returns without a restart: four trials, eight processes, no
  probe below 5. For provider \<open>cpu\<close> with nine cores, where the range is 2 to 8 as well
  and the code compares with \<open>(1 + 9) div 2 = 5\<close>, the same latencies do give the
  restart and the probe at 3.
\<close>

theorem restart_missed_under_openmp:
  "original_upper (intra_call omp8 (base_args\<lparr>intra_op_num_threads := 8\<rparr>) ''bin/all_eps'' ''dnnl'' []) = 8
   \<and> original_midpoint (intra_call omp8 (base_args\<lparr>intra_op_num_threads := 8\<rparr>) ''bin/all_eps'' ''dnnl'' []) = 5
   \<and> (case run_perf_tuning_binary omp8 (base_args\<lparr>intra_op_num_threads := 8\<rparr>)
             (intra_call omp8 (base_args\<lparr>intra_op_num_threads := 8\<rparr>) ''bin/all_eps'' ''dnnl'' [])
             (prog initial) of
        Inl e \<Rightarrow> None
      | Inr (b, ps) \<Rightarrow>
          Some (b, procs ps, map (\<lambda>r. name (heap ps ! r)) (successful_tests ps), failed_tests ps))
     = Some (5, 8, [''dnnl_2_OMP_threads'', ''dnnl_5_OMP_threads'', ''dnnl_7_OMP_threads'',
                    ''dnnl_6_OMP_threads''], [])
   \<and> (case spec_tuner omp8 (base_args\<lparr>intra_op_num_threads := 8\<rparr>)
             (intra_call omp8 (base_args\<lparr>intra_op_num_threads := 8\<rparr>) ''bin/all_eps'' ''dnnl'' [])
             (prog initial) of
        Inl e \<Rightarrow> None
      | Inr (b, ps) \<Rightarrow>
          Some (b, procs ps, map (\<lambda>r. name (heap ps ! r)) (successful_tests ps), failed_tests ps))
     = Some (5, 10, [''dnnl_2_OMP_threads'', ''dnnl_5_OMP_threads'', ''dnnl_7_OMP_threads'',
                     ''dnnl_6_OMP_threads'', ''dnnl_3_OMP_threads''], [])
   \<and> (case run_perf_tuning_binary m9 base_args (cpu_call m9 9) (prog initial) of
        Inl e \<Rightarrow> None
      | Inr (b, ps) \<Rightarrow>
          Some (b, procs ps, map (\<lambda>r. name (heap ps ! r)) (successful_tests ps), failed_tests ps))
     = Some (5, 10, [''cpu_2_intra_threads'', ''cpu_5_intra_threads'', ''cpu_7_intra_threads'',
                     ''cpu_6_intra_threads'', ''cpu_3_intra_threads''], [])"
  by (simp add: omp8_def m9_def example_defs runner_defs tuner_defs spec_defs main_defs)

section \<open>Claims about the environment combinations\<close>

text \<open>
  The count of the combinations, for a mapping with at least one variable whose candidate
  lists are all non-empty: the product of the lists' lengths.
\<close>

lemma length_concat_extend:
  "length (concat (map (\<lambda>combo. map (\<lambda>v. combo @ [v]) opts) acc)) = length acc * length opts"
  by (induction acc) simp_all

lemma length_combos_step:
  "length (combos_step acc opts) = (if acc = [] then length opts else length acc * length opts)"
  by (simp add: combos_step_def length_concat_extend)

lemma length_foldl_combos_step:
  assumes "\<forall>opts \<in> set xs. opts \<noteq> []" and "acc \<noteq> []"
  shows "length (foldl combos_step acc xs) = length acc * prod_list (map length xs)"
  using assms
proof (induction xs arbitrary: acc)
  case Nil
  then show ?case by simp
next
  case (Cons opts xs)
  have "opts \<noteq> []" using Cons.prems(1) by simp
  then have "0 < length acc * length opts" using Cons.prems(2) by simp
  then have "0 < length (combos_step acc opts)"
    using Cons.prems(2) by (simp only: length_combos_step if_False)
  then have ne: "combos_step acc opts \<noteq> []" by auto
  have "length (foldl combos_step (combos_step acc opts) xs)
          = length (combos_step acc opts) * prod_list (map length xs)"
    using Cons.prems(1) by (intro Cons.IH ne) simp
  then show ?case
    using Cons.prems(2) by (simp add: length_combos_step)
qed

lemma combos_count:
  assumes "d \<noteq> []" and "\<forall>kv \<in> set d. snd kv \<noteq> []"
  shows "length (get_env_var_combos (Some d)) = prod_list (map (\<lambda>kv. length (snd kv)) d)"
proof -
  obtain kv d' where d: "d = kv # d'" using assms(1) by (cases d) auto
  have first: "combos_step [] (snd kv) \<noteq> []"
    using assms(2) d by (auto simp: combos_step_def)
  have "length (foldl combos_step (combos_step [] (snd kv)) (map snd d'))
          = length (combos_step [] (snd kv)) * prod_list (map length (map snd d'))"
    using assms(2) d by (intro length_foldl_combos_step first) auto
  then show ?thesis
    by (simp add: get_env_var_combos_def d length_combos_step comp_def)
qed

text \<open>
  C3. The claim holds for an absent mapping and for a mapping with variables, and fails for
  a mapping that is present and empty. \<open>None\<close> gives the one combination \<open>[""]\<close>,
  which \<open>gen_env_var_dict\<close> turns into the empty dict; the empty dict \<open>{}\<close> passes the
  test \<open>env_vars == None\<close>, the loop over its values never runs, and the result is the
  empty list: no combination at all, where the claim promises one. A provider whose entry
  in the table is the empty dict then gets no tuning and no candidate: the run for
  \<open>cpu\<close> that reports three trials when the entry is absent reports nothing.
\<close>

theorem empty_mapping_gives_no_combination:
  "get_env_var_combos (Some []) = [] \<and> get_env_var_combos None = [['''']]
     \<and> gen_env_var_dict [] [''''] = Inr []
     \<and> main (m5c\<lparr>ep_envvar_map := (\<lambda>ep. Some [])\<rparr>) base_args ''bin''
           = Inr \<lparr>by_provider = [], failed_runs = []\<rparr>"
  by (simp add: m5c_def example_defs runner_defs tuner_defs main_defs)

section \<open>Claims about the trial runner\<close>

lemma profile_run_avg:
  "profile_run m a p rf lat w = Inr (p', w') \<Longrightarrow>
     lat \<noteq> [] \<and> avg (store_latencies m p' lat) = avg (store_latencies m p lat)"
  unfolding profile_run_def Let_def store_latencies_def
  by (auto split: list.splits if_splits option.splits sum.splits)

text \<open>
  Whenever the runner returns, in either mode: the average is \<open>None\<close> exactly when the
  measured process exited with a non-zero code, or left no result file, or no sample was
  parsed from the file; otherwise it is what line 202 computes from the parsed samples,
  their mean rounded to nine places and multiplied by 1000, in float arithmetic.
\<close>

lemma run_perf_tuning_avg:
  assumes "run_perf_tuning m a tp pct w = Inr (tp', w')"
  shows "\<exists>targs.
           (if pct then Inr (get_percentiles_args a tp (path_join m (result a) (uuid4 m (uuids w))))
            else get_args a tp (path_join m (result a) (uuid4 m (uuids w)))) = Inr targs
           \<and> (avg tp' = None \<longleftrightarrow>
                returncode (subprocess_run m (procs w + 1) targs (env tp)) \<noteq> 0
                \<or> result_lines (subprocess_run m (procs w + 1) targs (env tp)) = None
                \<or> parse_lines (float_of m)
                     (the (result_lines (subprocess_run m (procs w + 1) targs (env tp)))) = Inr [])
           \<and> (\<forall>x. avg tp' = Some x \<longrightarrow>
                (\<exists>lat. parse_lines (float_of m)
                          (the (result_lines (subprocess_run m (procs w + 1) targs (env tp))))
                        = Inr lat
                   \<and> lat \<noteq> []
                   \<and> x = float_mul m
                           (float_round m
                              (float_div m (float_sum m (sort lat)) (of_nat (length lat))) 9)
                           1000))"
proof -
  let ?rf = "path_join m (result a) (uuid4 m (uuids w))"
  obtain targs where targs:
    "(if pct then Inr (get_percentiles_args a tp ?rf) else get_args a tp ?rf) = Inr targs"
    using assms unfolding run_perf_tuning_def Let_def
    by (cases "if pct then Inr (get_percentiles_args a tp ?rf) else get_args a tp ?rf") simp_all
  let ?perf = "subprocess_run m (procs w + 1) targs (env tp)"
  have run: "(let p1 = (if command tp = None \<or> command tp = Some []
                        then tp\<lparr>command := Some (join_sp targs)\<rparr> else tp);
                  w1 = w\<lparr>procs := procs w + 2, uuids := uuids w + 1\<rparr>
              in if returncode ?perf = 0 \<and> result_lines ?perf \<noteq> None
                 then (case parse_lines (float_of m) (the (result_lines ?perf)) of
                         Inl e \<Rightarrow> Inl e
                       | Inr lat \<Rightarrow>
                           if pct
                           then (case profile_run m a p1 ?rf lat w1 of
                                   Inl e \<Rightarrow> Inl e
                                 | Inr (p2, w2) \<Rightarrow> Inr (store_latencies m p2 lat, w2))
                           else Inr (store_latencies m p1 lat, w1))
                 else Inr (store_latencies m p1 [], w1)) = Inr (tp', w')"
    using assms targs unfolding run_perf_tuning_def Let_def by simp
  have ?thesis if "\<not> (returncode ?perf = 0 \<and> result_lines ?perf \<noteq> None)"
  proof -
    have "avg tp' = None"
      using run that unfolding Let_def store_latencies_def by (auto split: if_splits)
    with that targs show ?thesis by auto
  qed
  moreover have ?thesis if ok: "returncode ?perf = 0 \<and> result_lines ?perf \<noteq> None"
  proof -
    obtain lat where lat: "parse_lines (float_of m) (the (result_lines ?perf)) = Inr lat"
      using run ok unfolding Let_def by (auto split: if_splits sum.splits)
    have "avg tp' = (if lat \<noteq> []
                     then Some (float_mul m
                                  (float_round m
                                     (float_div m (float_sum m (sort lat)) (of_nat (length lat))) 9)
                                  1000)
                     else None)"
      using run ok lat unfolding Let_def
      by (auto split: if_splits sum.splits prod.splits dest: profile_run_avg
            simp: store_latencies_def)
    then show ?thesis
      using ok lat targs by (intro exI [of _ targs]) auto
  qed
  ultimately show ?thesis by blast
qed

text \<open>
  C4. The runner does not return for every trial. With \<open>percentiles\<close> set, a measured run
  that exits with code 0 and leaves a result file from which no sample is parsed reaches
  \<open>Monitor(latencies[0])\<close> at line 174, which raises \<open>IndexError\<close>: the average is not
  set to \<open>None\<close>, the trial keeps the average of its ranking run, and the program ends.
  The same outcome of the same trial without \<open>percentiles\<close> gives the average \<open>None\<close>,
  as the claim says.
\<close>

theorem empty_output_in_profiling_raises:
  "run_perf_tuning empty_output base_args ranked_trial True \<lparr>procs = 2, uuids = 1\<rparr>
     = Inl IndexError
   \<and> (case run_perf_tuning empty_output base_args ranked_trial False \<lparr>procs = 2, uuids = 1\<rparr> of
        Inl e \<Rightarrow> None
      | Inr (p, w) \<Rightarrow> Some (avg p, latencies p))
     = Some (None, [])"
  by (simp add: empty_output_def ranked_trial_def example_defs runner_defs profile_run_def
        default_candidate_def get_percentiles_args_def provider_args_def env_option_of_def)

section \<open>Claims about the report\<close>

lemma floor_nine_tenths: "nat \<lfloor>of_nat n * (9 / 10 :: rat)\<rfloor> = n * 9 div 10"
proof -
  have "of_nat n * (9 / 10 :: rat) = of_int (int n * 9) / of_int 10" by simp
  then have "\<lfloor>of_nat n * (9 / 10 :: rat)\<rfloor> = int n * 9 div 10"
    by (simp only: floor_divide_of_int_eq)
  then show ?thesis by (simp add: nat_div_distrib nat_mult_distrib)
qed

lemma floor_nineteen_twentieths: "nat \<lfloor>of_nat n * (95 / 100 :: rat)\<rfloor> = n * 19 div 20"
proof -
  have "of_nat n * (95 / 100 :: rat) = of_int (int n * 19) / of_int 20" by simp
  then have "\<lfloor>of_nat n * (95 / 100 :: rat)\<rfloor> = int n * 19 div 20"
    by (simp only: floor_divide_of_int_eq)
  then show ?thesis by (simp add: nat_div_distrib nat_mult_distrib)
qed

text \<open>
  C7, as amended. For a trial whose run stored the samples \<open>lat\<close> (\<open>n\<close> of them, sorted
  ascending by the runner), the report entry has a 90th percentile exactly when
  \<open>n \<ge> 10\<close>, and it is what line 570 computes from the sample at index
  \<open>floor(n * 0.90)\<close>: the float product of the sample and 1000, rounded to five decimal
  places by the builtin \<open>round\<close>. It has a 95th percentile exactly when \<open>n \<ge> 20\<close>,
  computed in the same way from the sample at index \<open>floor(n * 0.95)\<close>. Both indices lie
  inside the list. The statement holds for every float arithmetic: the product and the
  rounding are the parameters \<open>float_mul\<close> and \<open>float_round\<close> of the world.
\<close>

theorem percentiles_of_report:
  fixes lat :: "rat list" and p :: PerfTestParams and m :: machine
  defines "n \<equiv> length lat"
  defines "t \<equiv> json_of m (store_latencies m p lat)"
  shows "(j_p90 t = (if 10 \<le> n
                     then Some (float_round m
                                  (float_mul m (sort lat ! nat \<lfloor>of_nat n * (9 / 10 :: rat)\<rfloor>) 1000) 5)
                     else None))
       \<and> (j_p95 t = (if 20 \<le> n
                     then Some (float_round m
                                  (float_mul m (sort lat ! nat \<lfloor>of_nat n * (95 / 100 :: rat)\<rfloor>) 1000) 5)
                     else None))
       \<and> (0 < n \<longrightarrow> nat \<lfloor>of_nat n * (9 / 10 :: rat)\<rfloor> < n
                    \<and> nat \<lfloor>of_nat n * (95 / 100 :: rat)\<rfloor> < n)"
proof -
  have "0 < k \<Longrightarrow> k * 9 div 10 < k \<and> k * 19 div 20 < k" for k :: nat
    by arith
  then show ?thesis
    unfolding n_def t_def floor_nine_tenths floor_nineteen_twentieths
    by (simp add: json_of_def store_latencies_def Let_def)
qed

text \<open>
  An instance: 25 samples of 1/8 s to 25/8 s give the 90th percentile at index 22
  (23/8 s, 2875 ms) and the 95th at index 23 (24/8 s, 3000 ms); the 15 largest of them
  give the 90th percentile at index 13 (3000 ms) and no 95th.
\<close>

theorem percentiles_of_report_witness:
  "j_p90 (json_of steady (store_latencies steady ranked_trial samples25)) = Some 2875
   \<and> j_p95 (json_of steady (store_latencies steady ranked_trial samples25)) = Some 3000
   \<and> j_p90 (json_of steady (store_latencies steady ranked_trial (take 15 samples25))) = Some 3000
   \<and> j_p95 (json_of steady (store_latencies steady ranked_trial (take 15 samples25))) = None"
proof -
  have s25: "sort samples25 = map (\<lambda>i. of_nat i / 8) [1..<26]"
    unfolding samples25_def by code_simp
  have s15: "sort (take 15 samples25) = map (\<lambda>i. of_nat i / 8) [11..<26]"
    unfolding samples25_def by code_simp
  have l25: "length samples25 = 25" and l15: "length (take 15 samples25) = 15"
    by (simp_all add: samples25_def)
  have r: "float_round steady (float_mul steady (23 / 8) 1000) 5 = 2875"
    "float_round steady (float_mul steady (24 / 8) 1000) 5 = 3000"
    by (simp_all add: steady_def bench_machine_def decimal_round_def round_half_even_def)
  have i: "nat \<lfloor>45 / 2 :: rat\<rfloor> = 22" "nat \<lfloor>95 / 4 :: rat\<rfloor> = 23"
    "nat \<lfloor>27 / 2 :: rat\<rfloor> = 13"
    using floor_nine_tenths [of 25] floor_nineteen_twentieths [of 25] floor_nine_tenths [of 15]
    by simp_all
  show ?thesis
    using percentiles_of_report [where lat = samples25 and p = ranked_trial and m = steady]
      percentiles_of_report [where lat = "take 15 samples25" and p = ranked_trial and m = steady]
      r
    by (simp add: s25 s15 l25 l15 i)
qed

text \<open>
  C7 as stated leaves the rounding out. Sixteen samples, the one at index 14 being the
  float 1.0000000037252903: converted to milliseconds it is 1000.0000037252903 (the
  product is exact), and the reported 90th percentile is 1000.0. The average of the trial
  is 1062.5 ms.
\<close>

theorem percentile_is_rounded:
  "j_p90 (json_of steady (store_latencies steady ranked_trial samples16)) = Some 1000
   \<and> sort samples16 ! nat \<lfloor>of_nat (length samples16) * (9 / 10 :: rat)\<rfloor> = 1 + 1 / 2 ^ 28
   \<and> float_mul steady (sort samples16 ! nat \<lfloor>of_nat (length samples16) * (9 / 10 :: rat)\<rfloor>) 1000
       = 1000 + 1000 / 2 ^ 28
   \<and> j_p90 (json_of steady (store_latencies steady ranked_trial samples16))
       \<noteq> Some (float_mul steady
                 (sort samples16 ! nat \<lfloor>of_nat (length samples16) * (9 / 10 :: rat)\<rfloor>) 1000)
   \<and> j_avg (json_of steady (store_latencies steady ranked_trial samples16)) = Some (2125 / 2)"
  by code_simp

section \<open>Claims about the orchestrator\<close>

lemma append_tests_result:
  "append_tests qs (ps, tests) =
     (ps\<lparr>heap := heap ps @ qs\<rparr>, tests @ [length (heap ps) ..< length (heap ps) + length qs])"
proof (induction qs arbitrary: ps tests)
  case Nil
  then show ?case by simp
next
  case (Cons q qs)
  have "[length (heap ps) ..< length (heap ps) + length (q # qs)]
          = length (heap ps) # [Suc (length (heap ps)) ..< Suc (length (heap ps)) + length qs]"
    by (simp add: upt_rec)
  then show ?case by (simp add: Cons.IH)
qed

lemma nth_new_objects:
  "map (\<lambda>r. (h @ qs) ! r) [length h ..< length h + length qs] = qs"
  by (rule nth_equalityI) (simp_all add: nth_append)

lemma map_of_dict_set: "map_of (dict_set d k v) k = Some v"
  by (induction d k v rule: dict_set.induct) simp_all

text \<open>What the combined candidate of lines 503 to 516 is.\<close>

lemma name_combined_candidate:
  "name (combined_candidate m bp bn e bi bt) =
     bn @ ''_parallel_'' @ str_int bt
       @ (if bn \<in> set omp_eps then ''_OMP_threads'' else ''_intra_threads'')
       @ ''_'' @ str_int bi @ ''_inter_threads'' @ env_option_of e"
  by (cases "bn \<in> set omp_eps")
     (simp_all add: combined_candidate_def PerfTestParams_init_def updateEnv_def Let_def)

lemma test_args_combined_candidate:
  "test_args (combined_candidate m bp bn e bi bt) =
     (if is_windows m then path_join m bp ''onnxruntime_perf_test.exe''
      else path_join m bp ''onnxruntime_perf_test'')
       # provider_args bn @ [''-P'', ''-y'', str_int bi]
       @ (if bn \<in> set omp_eps then [''-x'', ''1''] else [''-x'', str_int bt])"
  by (cases "bn \<in> set omp_eps")
     (simp_all add: combined_candidate_def PerfTestParams_init_def updateEnv_def Let_def)

lemma env_to_set_combined_candidate:
  "env_to_set (combined_candidate m bp bn e bi bt) =
     (if bn \<in> set omp_eps then dict_set e ''OMP_NUM_THREADS'' (str_int bt) else e)"
  by (cases "bn \<in> set omp_eps")
     (simp_all add: combined_candidate_def PerfTestParams_init_def updateEnv_def Let_def)

lemma env_combined_candidate:
  "bn \<in> set omp_eps \<Longrightarrow>
     map_of (env (combined_candidate m bp bn e bi bt)) ''OMP_NUM_THREADS'' = Some (str_int bt)"
  by (simp add: combined_candidate_def PerfTestParams_init_def updateEnv_def Let_def
        map_of_dict_set)

text \<open>What the default candidate of lines 519 to 527 is.\<close>

lemma name_default_candidate:
  "name (default_candidate m bp bn e) = bn @ env_option_of e"
  by (simp add: default_candidate_def PerfTestParams_init_def Let_def)

lemma test_args_default_candidate:
  "test_args (default_candidate m bp bn e) =
     (if is_windows m then path_join m bp ''onnxruntime_perf_test.exe''
      else path_join m bp ''onnxruntime_perf_test'')
       # provider_args bn"
  by (simp add: default_candidate_def PerfTestParams_init_def Let_def)

lemma env_to_set_default_candidate:
  "env_to_set (default_candidate m bp bn e) = e"
  by (simp add: default_candidate_def PerfTestParams_init_def Let_def)

lemma combined_is_not_default:
  "combined_candidate m bp bn e bi bt \<noteq> default_candidate m bp bn e"
proof
  assume "combined_candidate m bp bn e bi bt = default_candidate m bp bn e"
  then have "length (name (combined_candidate m bp bn e bi bt))
               = length (name (default_candidate m bp bn e))"
    by simp
  then show False
    by (simp add: name_combined_candidate name_default_candidate)
qed

text \<open>
  C9. Take any environment combination whose dict is \<open>e\<close> and whose intra-op (or OpenMP)
  tuning returns \<open>bt\<close>, with \<open>bi\<close> the best inter-op count of the provider. The loop
  body appends to \<open>tests\<close> the combined candidate and then the default candidate when
  \<open>bi > 1\<close> and \<open>bt > 1\<close>, and the default candidate alone otherwise; so the combined
  candidate is among the appended objects if and only if \<open>bi > 1\<close> and \<open>bt > 1\<close>.

  The combined candidate applies parallel mode and both tuned counts: its command line is
  the executable and the provider's arguments followed by \<open>-P\<close>, by \<open>-y bi\<close>, and by
  \<open>-x bt\<close>; for an OpenMP provider it is followed by \<open>-x 1\<close> instead, and
  \<open>OMP_NUM_THREADS\<close> is set to \<open>bt\<close> in the environment of the process and in the
  variables recorded for the report. Its name encodes \<open>bt\<close>, \<open>bi\<close> and the environment
  combination. The default candidate has the executable and the provider's arguments
  only, and the combination's variables.
\<close>

theorem combined_candidate_iff:
  assumes "gen_env_var_dict env_names combo = Inr e"
    and "run_perf_tuning_binary m a (intra_call m a bp bn e) ps = Inr (bt, ps1)"
  shows "\<exists>ps' new.
           sweep_combo m a bp bn env_names bi combo (ps, tests) = Inr (ps', tests @ new)
           \<and> map (\<lambda>r. heap ps' ! r) new
               = (if 1 < bi \<and> 1 < bt
                  then [combined_candidate m bp bn e bi bt, default_candidate m bp bn e]
                  else [default_candidate m bp bn e])
           \<and> (combined_candidate m bp bn e bi bt \<in> set (map (\<lambda>r. heap ps' ! r) new)
                \<longleftrightarrow> 1 < bi \<and> 1 < bt)
           \<and> test_args (combined_candidate m bp bn e bi bt)
               = (if is_windows m then path_join m bp ''onnxruntime_perf_test.exe''
                  else path_join m bp ''onnxruntime_perf_test'')
                 # provider_args bn @ [''-P'', ''-y'', str_int bi]
                 @ (if bn \<in> set omp_eps then [''-x'', ''1''] else [''-x'', str_int bt])
           \<and> env_to_set (combined_candidate m bp bn e bi bt)
               = (if bn \<in> set omp_eps then dict_set e ''OMP_NUM_THREADS'' (str_int bt) else e)
           \<and> (bn \<in> set omp_eps \<longrightarrow>
                map_of (env (combined_candidate m bp bn e bi bt)) ''OMP_NUM_THREADS''
                  = Some (str_int bt))
           \<and> name (combined_candidate m bp bn e bi bt)
               = bn @ ''_parallel_'' @ str_int bt
                 @ (if bn \<in> set omp_eps then ''_OMP_threads'' else ''_intra_threads'')
                 @ ''_'' @ str_int bi @ ''_inter_threads'' @ env_option_of e
           \<and> test_args (default_candidate m bp bn e)
               = (if is_windows m then path_join m bp ''onnxruntime_perf_test.exe''
                  else path_join m bp ''onnxruntime_perf_test'')
                 # provider_args bn
           \<and> env_to_set (default_candidate m bp bn e) = e
           \<and> name (default_candidate m bp bn e) = bn @ env_option_of e"
proof -
  let ?qs = "combo_candidates m bp bn e bi bt"
  let ?ps = "ps1\<lparr>heap := heap ps1 @ ?qs\<rparr>"
  let ?new = "[length (heap ps1) ..< length (heap ps1) + length ?qs]"
  have qs: "?qs = (if 1 < bi \<and> 1 < bt
                   then [combined_candidate m bp bn e bi bt, default_candidate m bp bn e]
                   else [default_candidate m bp bn e])"
    by (simp add: combo_candidates_def)
  have run: "sweep_combo m a bp bn env_names bi combo (ps, tests) = Inr (?ps, tests @ ?new)"
    using assms by (simp add: sweep_combo_def append_tests_result)
  have "map (\<lambda>r. heap ?ps ! r) ?new = ?qs"
    using nth_new_objects [of "heap ps1" ?qs] by simp
  then have objs: "map (\<lambda>r. heap ?ps ! r) ?new
                     = (if 1 < bi \<and> 1 < bt
                        then [combined_candidate m bp bn e bi bt, default_candidate m bp bn e]
                        else [default_candidate m bp bn e])"
    using qs by simp
  have mem: "combined_candidate m bp bn e bi bt \<in> set (map (\<lambda>r. heap ?ps ! r) ?new)
               \<longleftrightarrow> 1 < bi \<and> 1 < bt"
    unfolding objs using combined_is_not_default [of m bp bn e bi bt] by auto
  have omp: "bn \<in> set omp_eps \<longrightarrow>
               map_of (env (combined_candidate m bp bn e bi bt)) ''OMP_NUM_THREADS''
                 = Some (str_int bt)"
    by (simp add: env_combined_candidate)
  show ?thesis
    apply (intro exI [of _ ?ps] exI [of _ ?new] conjI)
             apply (rule run)
            apply (rule objs)
           apply (rule mem)
          apply (rule test_args_combined_candidate)
         apply (rule env_to_set_combined_candidate)
        apply (rule omp)
       apply (rule name_combined_candidate)
      apply (rule test_args_default_candidate)
     apply (rule env_to_set_default_candidate)
    apply (rule name_default_candidate)
    done
qed

text \<open>
  Instances. Provider \<open>cpu\<close> with five cores and latencies 250, 125, 375 ms at 2, 3, 4
  threads, where the intra-op tuning returns 3: with a best inter-op count of 3 both
  candidates are appended, the combined one running \<open>-P -y 3 -x 3\<close>; with \<open>-1\<close>
  (inter-op tuning not done) only the default one. Provider \<open>dnnl\<close> with a ceiling of
  eight OpenMP threads, where the tuning returns 5: with a best inter-op count of 2 the
  combined candidate runs \<open>-P -y 2 -x 1\<close> under \<open>OMP_NUM_THREADS=5\<close>.
\<close>

theorem combined_candidate_iff_witness:
  "(case sweep_combo m5 base_args ''bin/all_eps'' ''cpu'' [] 3 [''''] (prog initial, []) of
      Inl e \<Rightarrow> None
    | Inr (ps, tests) \<Rightarrow>
        Some (map (\<lambda>r. (name (heap ps ! r), test_args (heap ps ! r), env_to_set (heap ps ! r)))
                tests))
     = Some [(''cpu_parallel_3_intra_threads_3_inter_threads'',
              [''bin/all_eps/onnxruntime_perf_test'', ''-e'', ''cpu'', ''-P'', ''-y'', ''3'',
               ''-x'', ''3''], []),
             (''cpu'', [''bin/all_eps/onnxruntime_perf_test'', ''-e'', ''cpu''], [])]
   \<and> (case sweep_combo m5 base_args ''bin/all_eps'' ''cpu'' [] (- 1) [''''] (prog initial, []) of
      Inl e \<Rightarrow> None
    | Inr (ps, tests) \<Rightarrow>
        Some (map (\<lambda>r. (name (heap ps ! r), test_args (heap ps ! r), env_to_set (heap ps ! r)))
                tests))
     = Some [(''cpu'', [''bin/all_eps/onnxruntime_perf_test'', ''-e'', ''cpu''], [])]
   \<and> (case sweep_combo omp8 (base_args\<lparr>intra_op_num_threads := 8\<rparr>) ''bin/all_eps'' ''dnnl'' []
             2 [''''] (prog initial, []) of
      Inl e \<Rightarrow> None
    | Inr (ps, tests) \<Rightarrow>
        Some (map (\<lambda>r. (name (heap ps ! r), test_args (heap ps ! r), env_to_set (heap ps ! r),
                        map_of (env (heap ps ! r)) ''OMP_NUM_THREADS''))
                tests))
     = Some [(''dnnl_parallel_5_OMP_threads_2_inter_threads'',
              [''bin/all_eps/onnxruntime_perf_test'', ''-e'', ''dnnl'', ''-P'', ''-y'', ''2'',
               ''-x'', ''1''], [(''OMP_NUM_THREADS'', ''5'')], Some ''5''),
             (''dnnl'', [''bin/all_eps/onnxruntime_perf_test'', ''-e'', ''dnnl''], [], None)]"
proof -
  let ?a8 = "base_args\<lparr>intra_op_num_threads := 8\<rparr>"
  have h1: "gen_env_var_dict [] [''''] = Inr []"
    by (simp add: gen_env_var_dict_def)
  obtain ps1 where h2:
    "run_perf_tuning_binary m5 base_args (intra_call m5 base_args ''bin/all_eps'' ''cpu'' [])
       (prog initial) = Inr (3, ps1)"
    by (simp add: m5_def example_defs runner_defs tuner_defs main_defs)
  obtain ps2 where h3:
    "run_perf_tuning_binary omp8 ?a8 (intra_call omp8 ?a8 ''bin/all_eps'' ''dnnl'' [])
       (prog initial) = Inr (5, ps2)"
    by (simp add: omp8_def example_defs runner_defs tuner_defs main_defs)
  have cpu_objs:
    "map (\<lambda>p. (name p, test_args p, env_to_set p))
       [combined_candidate m5 ''bin/all_eps'' ''cpu'' [] 3 3,
        default_candidate m5 ''bin/all_eps'' ''cpu'' []]
       = [(''cpu_parallel_3_intra_threads_3_inter_threads'',
           [''bin/all_eps/onnxruntime_perf_test'', ''-e'', ''cpu'', ''-P'', ''-y'', ''3'',
            ''-x'', ''3''], []),
          (''cpu'', [''bin/all_eps/onnxruntime_perf_test'', ''-e'', ''cpu''], [])]"
    by (simp add: m5_def example_defs runner_defs main_defs)
  have cpu_default:
    "map (\<lambda>p. (name p, test_args p, env_to_set p)) [default_candidate m5 ''bin/all_eps'' ''cpu'' []]
       = [(''cpu'', [''bin/all_eps/onnxruntime_perf_test'', ''-e'', ''cpu''], [])]"
    by (simp add: m5_def example_defs runner_defs main_defs)
  have dnnl_objs:
    "map (\<lambda>p. (name p, test_args p, env_to_set p, map_of (env p) ''OMP_NUM_THREADS''))
       [combined_candidate omp8 ''bin/all_eps'' ''dnnl'' [] 2 5,
        default_candidate omp8 ''bin/all_eps'' ''dnnl'' []]
       = [(''dnnl_parallel_5_OMP_threads_2_inter_threads'',
           [''bin/all_eps/onnxruntime_perf_test'', ''-e'', ''dnnl'', ''-P'', ''-y'', ''2'',
            ''-x'', ''1''], [(''OMP_NUM_THREADS'', ''5'')], Some ''5''),
          (''dnnl'', [''bin/all_eps/onnxruntime_perf_test'', ''-e'', ''dnnl''], [], None)]"
    by (simp add: omp8_def example_defs runner_defs main_defs)
  obtain ps' new where a:
    "sweep_combo m5 base_args ''bin/all_eps'' ''cpu'' [] 3 [''''] (prog initial, [])
       = Inr (ps', [] @ new)"
    "map (\<lambda>r. heap ps' ! r) new
       = [combined_candidate m5 ''bin/all_eps'' ''cpu'' [] 3 3,
          default_candidate m5 ''bin/all_eps'' ''cpu'' []]"
    using combined_candidate_iff [OF h1 h2, of 3 "[]"] by auto
  obtain ps'' new' where b:
    "sweep_combo m5 base_args ''bin/all_eps'' ''cpu'' [] (- 1) [''''] (prog initial, [])
       = Inr (ps'', [] @ new')"
    "map (\<lambda>r. heap ps'' ! r) new' = [default_candidate m5 ''bin/all_eps'' ''cpu'' []]"
    using combined_candidate_iff [OF h1 h2, of "- 1" "[]"] by auto
  obtain ps''' new'' where c:
    "sweep_combo omp8 ?a8 ''bin/all_eps'' ''dnnl'' [] 2 [''''] (prog initial, [])
       = Inr (ps''', [] @ new'')"
    "map (\<lambda>r. heap ps''' ! r) new''
       = [combined_candidate omp8 ''bin/all_eps'' ''dnnl'' [] 2 5,
          default_candidate omp8 ''bin/all_eps'' ''dnnl'' []]"
    using combined_candidate_iff [OF h1 h3, of 2 "[]"] by auto
  have "map (\<lambda>r. (name (heap ps' ! r), test_args (heap ps' ! r), env_to_set (heap ps' ! r))) new
          = map (\<lambda>p. (name p, test_args p, env_to_set p)) (map (\<lambda>r. heap ps' ! r) new)"
    "map (\<lambda>r. (name (heap ps'' ! r), test_args (heap ps'' ! r), env_to_set (heap ps'' ! r))) new'
          = map (\<lambda>p. (name p, test_args p, env_to_set p)) (map (\<lambda>r. heap ps'' ! r) new')"
    "map (\<lambda>r. (name (heap ps''' ! r), test_args (heap ps''' ! r), env_to_set (heap ps''' ! r),
               map_of (env (heap ps''' ! r)) ''OMP_NUM_THREADS'')) new''
          = map (\<lambda>p. (name p, test_args p, env_to_set p, map_of (env p) ''OMP_NUM_THREADS''))
              (map (\<lambda>r. heap ps''' ! r) new'')"
    by (simp_all add: comp_def)
  then show ?thesis
    unfolding a b c cpu_objs cpu_default dnnl_objs by simp
qed

section \<open>Claims about success and failure\<close>







section \<open>Claims about what the report holds\<close>

text \<open>
  C6. Two providers, \<open>cpu\<close> and \<open>dnnl\<close>, one core (so no tuning, one default candidate
  each), every process writing a latency of 250 ms except the process with index 5, which
  exits with code 1. Processes 0 to 3 are the ranking runs, and both candidates succeed.
  Process 5 is the measured run of the re-profiling of \<open>cpu\<close>: its average becomes
  \<open>None\<close>, and the sort of the profile candidates at line 549 compares \<open>None\<close> with
  the 250 ms of \<open>dnnl\<close> and raises \<open>TypeError\<close>. No report is written, for either
  provider. With \<open>cpu\<close> alone (its re-profiling run is then process 3) the single
  profile candidate is not compared with anything, and the report keeps the entry of
  \<open>cpu\<close>, with the average \<open>None\<close>, no percentiles and a resource usage of 0.
\<close>

theorem failed_profiling_ends_the_run:
  "(case tune_providers (nth_fails 5) (one_core ''cpu,dnnl'') ''bin'' [''cpu'', ''dnnl''] initial of
      Inl e \<Rightarrow> None
    | Inr st \<Rightarrow>
        Some (map (\<lambda>kv. (fst kv, map (\<lambda>r. (name (heap (prog st) ! r), avg (heap (prog st) ! r)))
                                    (snd kv))) (successful_by_ep st),
              procs (prog st)))
     = Some ([(''cpu'', [(''cpu'', Some 250)]), (''dnnl'', [(''dnnl'', Some 250)])], 4)
   \<and> main (nth_fails 5) (one_core ''cpu,dnnl'') ''bin'' = Inl TypeError
   \<and> (case main (nth_fails 3) (one_core ''cpu'') ''bin'' of
        Inl e \<Rightarrow> None
      | Inr rep \<Rightarrow>
          Some (map (\<lambda>kv. (fst kv, map (\<lambda>j. (j_name j, j_avg j, j_p90 j, j_cpu_usage j)) (snd kv)))
                  (by_provider rep), failed_runs rep))
     = Some ([(''cpu'', [(''cpu'', None, None, 0)])], [])"
  by (simp add: nth_fails_def one_core_def example_defs runner_defs tuner_defs main_defs)

end
